theory Spec2Isabelle
  imports Complex_Main "HOL-Library.Multiset"
begin

section \<open>JavaScript strings\<close>

text \<open>
  Strings are lists of characters with code points below 256. The three string
  methods the services use (\<open>toLowerCase\<close>, \<open>trim\<close>, \<open>includes\<close>) are
  written out on that alphabet.
\<close>

definition toLowerChar :: "char \<Rightarrow> char" where
  "toLowerChar c =
     (let n = (of_char c :: nat) in
      if (65 \<le> n \<and> n \<le> 90) \<or> (192 \<le> n \<and> n \<le> 222 \<and> n \<noteq> 215)
      then char_of (n + 32) else c)"

definition toLowerCase :: "string \<Rightarrow> string" where
  "toLowerCase s = map toLowerChar s"

definition isWhiteSpace :: "char \<Rightarrow> bool" where
  "isWhiteSpace c = ((of_char c :: nat) \<in> {9, 10, 11, 12, 13, 32, 160})"

definition trim :: "string \<Rightarrow> string" where
  "trim s = rev (dropWhile isWhiteSpace (rev (dropWhile isWhiteSpace s)))"

fun startsWith :: "string \<Rightarrow> string \<Rightarrow> bool" where
  "startsWith s [] = True"
| "startsWith [] (p # ps) = False"
| "startsWith (c # cs) (p # ps) = (c = p \<and> startsWith cs ps)"

fun includes_str :: "string \<Rightarrow> string \<Rightarrow> bool" where
  "includes_str [] sub = (sub = [])"
| "includes_str (c # cs) sub = (startsWith (c # cs) sub \<or> includes_str cs sub)"

text \<open>A regular expression's \<open>.\<close> matches every character but a line terminator.\<close>

definition isLineTerminator :: "char \<Rightarrow> bool" where
  "isLineTerminator c = ((of_char c :: nat) \<in> {10, 13})"

text \<open>The class \<open>\w\<close>: ASCII letters, digits and the underscore.\<close>

definition isWordChar :: "char \<Rightarrow> bool" where
  "isWordChar c =
     (let n = (of_char c :: nat) in
      (48 \<le> n \<and> n \<le> 57) \<or> (65 \<le> n \<and> n \<le> 90) \<or> n = 95 \<or> (97 \<le> n \<and> n \<le> 122))"

section \<open>The remote endpoint and thrown values\<close>

text \<open>
  A thrown value, as far as the services look into it: whether it is an instance of
  \<open>Error\<close>, the fields \<open>error.code\<close>, \<open>error.message\<close>, \<open>status\<close> and
  \<open>message\<close> (absent fields are \<open>None\<close>; a code or status that is present is a
  number, a message that is present is a string), and its \<open>JSON.stringify\<close> and
  \<open>String\<close> texts.
\<close>

record js_error =
  is_Error :: bool
  inner_code :: "int option"
  inner_message :: "string option"
  err_status :: "int option"
  err_message :: "string option"
  json :: string
  as_string :: string

definition new_Error :: "string \<Rightarrow> js_error" where
  "new_Error msg = \<lparr>is_Error = True, inner_code = None, inner_message = None,
                    err_status = None, err_message = Some msg, json = ''{}'',
                    as_string = ''Error: '' @ msg\<rparr>"

record part =
  inlineData :: "(string \<times> string) option"
  part_text :: "string option"

text \<open>
  A response: the parts of its first candidate (empty when a link of
  \<open>candidates?.[0]?.content?.parts\<close> is missing) and its \<open>text\<close>.
\<close>

record response =
  parts :: "part list"
  resp_text :: "string option"

record request =
  req_model :: string
  req_mimeType :: string
  req_data :: string
  req_text :: string
  req_modalities :: "string list"

text \<open>
  The world the services act on: the requests issued so far, in order, and the
  delays slept so far. The endpoint answers the \<open>n\<close>-th request of a run by a value
  or by throwing; \<open>Math.random\<close> is the stream \<open>rnd\<close>, read at the number of
  delays drawn so far.
\<close>

record world =
  calls :: "request list"
  delays :: "real list"

type_synonym remote = "nat \<Rightarrow> request \<Rightarrow> js_error + response"

definition generateContent :: "remote \<Rightarrow> request \<Rightarrow> world \<Rightarrow> (js_error + response) \<times> world" where
  "generateContent remote req w = (remote (length (calls w)) req, w\<lparr>calls := calls w @ [req]\<rparr>)"

section \<open>geminiService: helpers\<close>

definition getFallbackPrompt :: "string \<Rightarrow> string" where
  "getFallbackPrompt character =
     ''Create a photorealistic image of the person in this photo wearing the PUBG outfit \"''
     @ character @
     ''\". CRITICAL: The character's face must be clearly visible and UNCOVERED by any helmets or masks. Their face must keep the original facial features from the photo. The image should show them in a dynamic action pose within a battle royale setting. Ensure the final image is a clear photograph that looks authentic.''"

definition outfitMarker :: string where
  "outfitMarker = ''wearing the iconic PUBG outfit: \"''"

text \<open>
  One try of \<open>/wearing the iconic PUBG outfit: "(.*?)"/\<close> at the head of \<open>s\<close>: the
  marker, then the shortest run of non-terminators that a double quote follows.
\<close>

definition matchOutfitHere :: "string \<Rightarrow> string option" where
  "matchOutfitHere s =
     (if startsWith s outfitMarker then
        (let rest = drop (length outfitMarker) s;
             label = takeWhile (\<lambda>c. c \<noteq> CHR 0x22 \<and> \<not> isLineTerminator c) rest
         in if startsWith (drop (length label) rest) [CHR 0x22] then Some label else None)
      else None)"

text \<open>\<open>String.prototype.match\<close> tries every start position from the left.\<close>

fun matchOutfit :: "string \<Rightarrow> string option" where
  "matchOutfit [] = None"
| "matchOutfit (c # cs) =
     (case matchOutfitHere (c # cs) of Some l \<Rightarrow> Some l | None \<Rightarrow> matchOutfit cs)"

definition extractCharacter :: "string \<Rightarrow> string option" where
  "extractCharacter prompt = matchOutfit prompt"

definition noImagePrefix :: string where
  "noImagePrefix = ''The AI model responded with text instead of an image''"

text \<open>
  The error thrown for a response without an image: \<open>textResponse || 'No text response
  received.'\<close> in quotes after the fixed sentence.
\<close>

definition noImageError :: "response \<Rightarrow> js_error" where
  "noImageError response =
     (let textResponse = (case resp_text response of None \<Rightarrow> [] | Some t \<Rightarrow> t) in
      new_Error (noImagePrefix @ '': \"''
        @ (if textResponse = [] then ''No text response received.'' else textResponse)
        @ ''\"''))"

definition processGeminiResponse :: "response \<Rightarrow> js_error + string" where
  "processGeminiResponse response =
     (case find (\<lambda>p. inlineData p \<noteq> None) (parts response) of
        Some imagePartFromResponse \<Rightarrow>
          (case inlineData imagePartFromResponse of
             Some (mimeType, data) \<Rightarrow> Inr (''data:'' @ mimeType @ '';base64,'' @ data)
           | None \<Rightarrow> Inl (noImageError response))
      | None \<Rightarrow> Inl (noImageError response))"

section \<open>geminiService: withRetry\<close>

definition maxRetries :: nat where
  "maxRetries = 3"

definition initialDelay :: real where
  "initialDelay = 1000"

text \<open>\<open>error?.error?.code || error?.status\<close>: a code of 0 is falsy.\<close>

definition statusOf :: "js_error \<Rightarrow> int option" where
  "statusOf e = (case inner_code e of Some c \<Rightarrow> (if c \<noteq> 0 then Some c else err_status e)
                 | None \<Rightarrow> err_status e)"

text \<open>\<open>error?.error?.message || error?.message || ''\<close>: the empty string is falsy.\<close>

definition messageOf :: "js_error \<Rightarrow> string" where
  "messageOf e =
     (case inner_message e of
        Some m \<Rightarrow> (if m \<noteq> [] then m else (case err_message e of Some m' \<Rightarrow> m' | None \<Rightarrow> []))
      | None \<Rightarrow> (case err_message e of Some m' \<Rightarrow> m' | None \<Rightarrow> []))"

definition isRetriable :: "js_error \<Rightarrow> bool" where
  "isRetriable e =
     (statusOf e \<in> {Some 500, Some 503} \<or> includes_str (toLowerCase (messageOf e)) ''internal'')"

definition retryDelay :: "nat \<Rightarrow> real \<Rightarrow> real" where
  "retryDelay attempt r = initialDelay * 2 ^ (attempt - 1) + r * 1000"

text \<open>What the \<open>catch\<close> block throws once it does not retry.\<close>

definition rethrow :: "js_error \<Rightarrow> js_error" where
  "rethrow e =
     (if is_Error e then e
      else new_Error (''Gemini API call failed: ''
             @ (if messageOf e \<noteq> [] then messageOf e else json e)))"

function withRetryFrom ::
  "nat \<Rightarrow> (nat \<Rightarrow> real) \<Rightarrow> (world \<Rightarrow> (js_error + 'a) \<times> world) \<Rightarrow> world \<Rightarrow> (js_error + 'a) \<times> world" where
  "withRetryFrom attempt rnd apiCall w =
     (if attempt \<le> maxRetries then
        (case apiCall w of
           (Inr v, w') \<Rightarrow> (Inr v, w')
         | (Inl e, w') \<Rightarrow>
             (if isRetriable e \<and> attempt < maxRetries then
                withRetryFrom (attempt + 1) rnd apiCall
                  (w'\<lparr>delays := delays w' @ [retryDelay attempt (rnd (length (delays w')))]\<rparr>)
              else (Inl (rethrow e), w')))
      else (Inl (new_Error ''Gemini API call failed after all retries.''), w))"
  by pat_completeness auto
termination
  by (relation "measure (\<lambda>(attempt, rnd, apiCall, w). Suc maxRetries - attempt)") auto

definition withRetry ::
  "(nat \<Rightarrow> real) \<Rightarrow> (world \<Rightarrow> (js_error + 'a) \<times> world) \<Rightarrow> world \<Rightarrow> (js_error + 'a) \<times> world" where
  "withRetry rnd apiCall w = withRetryFrom 1 rnd apiCall w"

section \<open>geminiService: the two exported calls\<close>

text \<open>
  \<open>/^data:(image\/\w+);base64,(.*)$/\<close>: the two captures, or \<open>None\<close> when the
  string does not match.
\<close>

definition matchDataUrl :: "string \<Rightarrow> (string \<times> string) option" where
  "matchDataUrl s =
     (if startsWith s ''data:image/'' then
        (let r = drop 11 s;
             w = takeWhile isWordChar r;
             r' = drop (length w) r
         in if w \<noteq> [] \<and> startsWith r' '';base64,'' \<and> \<not> list_ex isLineTerminator (drop 8 r')
            then Some (''image/'' @ w, drop 8 r') else None)
      else None)"

definition imageRequest :: "string \<Rightarrow> string \<Rightarrow> string \<Rightarrow> request" where
  "imageRequest mimeType base64Data prompt =
     \<lparr>req_model = ''gemini-2.5-flash-image-preview'', req_mimeType = mimeType,
      req_data = base64Data, req_text = prompt, req_modalities = [''IMAGE'', ''TEXT'']\<rparr>"

text \<open>The body of a \<open>try\<close> block of \<open>generateCharacterImage\<close>: the call under the
  retry policy, then the inspection of the response.\<close>

definition tryGenerate ::
  "(nat \<Rightarrow> real) \<Rightarrow> remote \<Rightarrow> request \<Rightarrow> world \<Rightarrow> (js_error + string) \<times> world" where
  "tryGenerate rnd remote req w =
     (case withRetry rnd (generateContent remote req) w of
        (Inl e, w') \<Rightarrow> (Inl e, w')
      | (Inr response, w') \<Rightarrow> (processGeminiResponse response, w'))"

text \<open>\<open>error instanceof Error ? error.message : JSON.stringify(error)\<close>\<close>

definition errorMessageOf :: "js_error \<Rightarrow> string" where
  "errorMessageOf e =
     (if is_Error e then (case err_message e of Some m \<Rightarrow> m | None \<Rightarrow> []) else json e)"

text \<open>\<open>fallbackError instanceof Error ? fallbackError.message : String(fallbackError)\<close>\<close>

definition finalErrorMessageOf :: "js_error \<Rightarrow> string" where
  "finalErrorMessageOf e =
     (if is_Error e then (case err_message e of Some m \<Rightarrow> m | None \<Rightarrow> []) else as_string e)"

definition bothFailedPrefix :: string where
  "bothFailedPrefix = ''The AI model failed with both original and fallback prompts. Last error: ''"

definition generateCharacterImage ::
  "(nat \<Rightarrow> real) \<Rightarrow> remote \<Rightarrow> string \<Rightarrow> string \<Rightarrow> world \<Rightarrow> (js_error + string) \<times> world" where
  "generateCharacterImage rnd remote imageDataUrl prompt w =
     (case matchDataUrl imageDataUrl of
        None \<Rightarrow>
          (Inl (new_Error (''Invalid image data URL format. Expected 'data:image/...;base64,...''
                  @ [CHR 0x27])), w)
      | Some (mimeType, base64Data) \<Rightarrow>
          (case tryGenerate rnd remote (imageRequest mimeType base64Data prompt) w of
             (Inr url, w1) \<Rightarrow> (Inr url, w1)
           | (Inl error, w1) \<Rightarrow>
               (let errorMessage = errorMessageOf error in
                if includes_str errorMessage noImagePrefix then
                  (case extractCharacter prompt of
                     None \<Rightarrow> (Inl error, w1)
                   | Some character \<Rightarrow>
                       (if character = [] then (Inl error, w1)
                        else
                          (case tryGenerate rnd remote
                                  (imageRequest mimeType base64Data (getFallbackPrompt character)) w1 of
                             (Inr url, w2) \<Rightarrow> (Inr url, w2)
                           | (Inl fallbackError, w2) \<Rightarrow>
                               (Inl (new_Error (bothFailedPrefix @ finalErrorMessageOf fallbackError)),
                                w2))))
                else
                  (Inl (new_Error (''The AI model failed to generate an image. Details: ''
                          @ errorMessage)), w1))))"

datatype Gender = Male | Female | Unknown

definition genderInstruction :: string where
  "genderInstruction = ''Analyze the person in this image and determine their most likely gender. Respond with only one word: 'Male', 'Female', or 'Unknown'.''"

definition genderRequest :: "string \<Rightarrow> string \<Rightarrow> request" where
  "genderRequest mimeType base64Data =
     \<lparr>req_model = ''gemini-2.5-flash'', req_mimeType = mimeType,
      req_data = base64Data, req_text = genderInstruction, req_modalities = []\<rparr>"

definition detectGender ::
  "(nat \<Rightarrow> real) \<Rightarrow> remote \<Rightarrow> string \<Rightarrow> world \<Rightarrow> (js_error + Gender) \<times> world" where
  "detectGender rnd remote imageDataUrl w =
     (case matchDataUrl imageDataUrl of
        None \<Rightarrow> (Inl (new_Error ''Invalid image data URL format for gender detection.''), w)
      | Some (mimeType, base64Data) \<Rightarrow>
          (case withRetry rnd (generateContent remote (genderRequest mimeType base64Data)) w of
             (Inl e, w') \<Rightarrow> (Inr Unknown, w')
           | (Inr response, w') \<Rightarrow>
               (case resp_text response of
                  None \<Rightarrow> (Inr Unknown, w')
                | Some t \<Rightarrow>
                    (let resultText = toLowerCase (trim t) in
                     if includes_str resultText ''male'' then (Inr Male, w')
                     else if includes_str resultText ''female'' then (Inr Female, w')
                     else (Inr Unknown, w')))))"

section \<open>App: state, prompts and single regeneration\<close>

datatype ImageStatus = Pending | Done | Error

record GeneratedImage =
  status :: ImageStatus
  url :: "string option"
  error :: "string option"

record GenerationItem =
  character :: string
  map_name :: string
  scenario :: string

datatype AppState = idle | analyzing | generating | results_shown

text \<open>The component state that the two generation handlers read and write.\<close>

record app =
  uploadedImage :: "string option"
  generatedImages :: "string \<rightharpoonup> GeneratedImage"
  isLoading :: bool
  appState :: AppState
  generationItems :: "GenerationItem list"
  detectedGender :: "Gender option"

definition pendingImage :: GeneratedImage where
  "pendingImage = \<lparr>status = Pending, url = None, error = None\<rparr>"

definition doneImage :: "string \<Rightarrow> GeneratedImage" where
  "doneImage resultUrl = \<lparr>status = Done, url = Some resultUrl, error = None\<rparr>"

definition errorImage :: "string \<Rightarrow> GeneratedImage" where
  "errorImage errorMessage = \<lparr>status = Error, url = None, error = Some errorMessage\<rparr>"

text \<open>\<open>err instanceof Error ? err.message : "An unknown error occurred."\<close>\<close>

definition uiErrorMessage :: "js_error \<Rightarrow> string" where
  "uiErrorMessage err =
     (if is_Error err then (case err_message err of Some m \<Rightarrow> m | None \<Rightarrow> [])
      else ''An unknown error occurred.'')"

text \<open>
  \<open>generatePrompt\<close> of \<open>App.tsx\<close>; the table \<open>MAP_DESCRIPTIONS\<close> is the parameter
  \<open>descriptions\<close>.
\<close>

definition generatePrompt :: "(string \<rightharpoonup> string) \<Rightarrow> GenerationItem \<Rightarrow> Gender option \<Rightarrow> string" where
  "generatePrompt descriptions item gender =
     (let genderClause = (if gender = Some Male then ''male''
                          else if gender = Some Female then ''female'' else ''person'');
          fallback = ''the battle royale map \"'' @ map_name item @ ''\"'';
          mapDescription = (case descriptions (map_name item) of
                              Some d \<Rightarrow> (if d \<noteq> [] then d else fallback)
                            | None \<Rightarrow> fallback)
      in [CHR 0x0A]
         @ ''Photo edit request: Change the person in the photo into a '' @ genderClause
         @ '' video game character.'' @ [CHR 0x0A]
         @ ''- **Outfit:** Dress them in the following PUBG outfit: \"'' @ character item
         @ ''\".'' @ [CHR 0x0A]
         @ ''- **Face:** Their face must be perfectly preserved from the original photo and must be fully visible. Do not add any masks, helmets, or face coverings unless specified in the outfit description.''
         @ [CHR 0x0A]
         @ ''- **Action:** Place them in the following scene: \"'' @ scenario item @ ''\".''
         @ [CHR 0x0A]
         @ ''- **Location:** The background should be '' @ mapDescription @ ''.'' @ [CHR 0x0A]
         @ ''- **Style:** The final image should have the high-quality, realistic style of a modern video game.''
         @ [CHR 0x0A])"

text \<open>The state update of a finished generation, for the label of \<open>item\<close>.\<close>

definition publish :: "string \<Rightarrow> js_error + string \<Rightarrow> app \<Rightarrow> app" where
  "publish label r a =
     a\<lparr>generatedImages := (generatedImages a)(label \<mapsto>
          (case r of Inr resultUrl \<Rightarrow> doneImage resultUrl
                   | Inl err \<Rightarrow> errorImage (uiErrorMessage err)))\<rparr>"

text \<open>
  \<open>handleRegenerateCharacter\<close>, run to its end: the three early returns (the first
  when \<open>!uploadedImage\<close> holds, for no image and for the empty string), then the
  label set to pending, the generation call, and its result published.
\<close>

definition handleRegenerateCharacter ::
  "(string \<rightharpoonup> string) \<Rightarrow> (nat \<Rightarrow> real) \<Rightarrow> remote \<Rightarrow> string \<Rightarrow> app \<times> world \<Rightarrow> app \<times> world" where
  "handleRegenerateCharacter descriptions rnd remote label aw =
     (case aw of (a, w) \<Rightarrow>
      (case uploadedImage a of
         None \<Rightarrow> (a, w)
       | Some uploaded \<Rightarrow>
           (if uploaded = [] then (a, w)
            else
              (case find (\<lambda>item. character item = label) (generationItems a) of
                 None \<Rightarrow> (a, w)
               | Some itemToRegenerate \<Rightarrow>
                   (if (case generatedImages a label of Some g \<Rightarrow> status g = Pending
                        | None \<Rightarrow> False)
                    then (a, w)
                    else
                      (let a1 = a\<lparr>generatedImages := (generatedImages a)(label \<mapsto> pendingImage)\<rparr>;
                           prompt = generatePrompt descriptions itemToRegenerate (detectedGender a)
                       in case generateCharacterImage rnd remote uploaded prompt w of
                            (r, w') \<Rightarrow> (publish label r a1, w')))))))"

section \<open>App: the generation scheduler\<close>

text \<open>
  \<open>handleGenerateClick\<close> starts two workers over one queue. A worker is suspended at
  \<open>await processItem(item)\<close> with the generation call of \<open>item\<close> in flight, or the
  call has settled and published its status and the worker has not yet run on, or the
  worker has left its loop. The lists \<open>dequeued\<close> and \<open>settled\<close> record the items in
  the order they were taken off the queue and in the order their calls settled.
\<close>

datatype worker = Awaiting GenerationItem | Returned | Finished

record run =
  run_app :: app
  itemsQueue :: "GenerationItem list"
  workers :: "worker list"
  dequeued :: "GenerationItem list"
  settled :: "GenerationItem list"

definition concurrencyLimit :: nat where
  "concurrencyLimit = 2"

definition initialImages :: "GenerationItem list \<Rightarrow> (string \<rightharpoonup> GeneratedImage)" where
  "initialImages items = fold (\<lambda>item m. m(character item \<mapsto> pendingImage)) items Map.empty"

text \<open>The head of \<open>while (itemsQueue.length > 0) { const item = itemsQueue.shift(); ... }\<close>.\<close>

definition loopHead :: "run \<Rightarrow> worker \<times> run" where
  "loopHead s =
     (case itemsQueue s of
        [] \<Rightarrow> (Finished, s)
      | item # rest \<Rightarrow> (Awaiting item, s\<lparr>itemsQueue := rest, dequeued := dequeued s @ [item]\<rparr>))"

text \<open>A new worker runs up to its first \<open>await\<close> as soon as it is created.\<close>

definition startWorker :: "run \<Rightarrow> run" where
  "startWorker s = (case loopHead s of (wk, s') \<Rightarrow> s'\<lparr>workers := workers s' @ [wk]\<rparr>)"

definition resume :: "nat \<Rightarrow> run \<Rightarrow> run" where
  "resume i s = (case loopHead s of (wk, s') \<Rightarrow> s'\<lparr>workers := (workers s')[i := wk]\<rparr>)"

text \<open>
  \<open>handleGenerateClick\<close> up to \<open>await Promise.all(workers)\<close>; \<open>None\<close> is the early
  return, taken when \<open>!uploadedImage\<close> holds (no image, or the empty string) or
  there is no item.
\<close>

definition handleGenerateClick :: "app \<Rightarrow> run option" where
  "handleGenerateClick a =
     (if uploadedImage a = None \<or> uploadedImage a = Some [] \<or> generationItems a = [] then None
      else Some ((startWorker ^^ concurrencyLimit)
             \<lparr>run_app = a\<lparr>isLoading := True,
                            generatedImages := initialImages (generationItems a)\<rparr>,
              itemsQueue = generationItems a, workers = [], dequeued = [], settled = []\<rparr>))"

text \<open>
  What can happen next: the generation call of worker \<open>i\<close> settles with a value or an
  error and \<open>processItem\<close> publishes it; worker \<open>i\<close> runs on to its loop head; all
  workers have finished and the handler runs on after \<open>Promise.all\<close>.
\<close>

datatype event = Settle nat "js_error + string" | Resume nat | Join

fun step :: "event \<Rightarrow> run \<Rightarrow> run option" where
  "step (Settle i r) s =
     (if i < length (workers s) then
        (case workers s ! i of
           Awaiting item \<Rightarrow>
             Some (s\<lparr>run_app := publish (character item) r (run_app s),
                     workers := (workers s)[i := Returned],
                     settled := settled s @ [item]\<rparr>)
         | Returned \<Rightarrow> None
         | Finished \<Rightarrow> None)
      else None)"
| "step (Resume i) s =
     (if i < length (workers s) \<and> workers s ! i = Returned then Some (resume i s) else None)"
| "step Join s =
     (if list_all (\<lambda>wk. wk = Finished) (workers s) \<and> isLoading (run_app s)
      then Some (s\<lparr>run_app := (run_app s)\<lparr>isLoading := False, appState := results_shown\<rparr>\<rparr>)
      else None)"

fun exec :: "event list \<Rightarrow> run \<Rightarrow> run option" where
  "exec [] s = Some s"
| "exec (e # es) s = (case step e s of None \<Rightarrow> None | Some s' \<Rightarrow> exec es s')"

text \<open>The items whose generation call is in flight.\<close>

fun inFlight :: "worker list \<Rightarrow> GenerationItem list" where
  "inFlight [] = []"
| "inFlight (Awaiting item # ws) = item # inFlight ws"
| "inFlight (Returned # ws) = inFlight ws"
| "inFlight (Finished # ws) = inFlight ws"

text \<open>The number of events a run still has to make.\<close>

fun workerWeight :: "worker \<Rightarrow> nat" where
  "workerWeight (Awaiting item) = 2"
| "workerWeight Returned = 1"
| "workerWeight Finished = 0"

definition remaining :: "run \<Rightarrow> nat" where
  "remaining s = 2 * length (itemsQueue s) + sum_list (map workerWeight (workers s))
                 + (if isLoading (run_app s) then 1 else 0)"

definition terminal :: "app \<Rightarrow> GenerationItem \<Rightarrow> bool" where
  "terminal a item =
     (case generatedImages a (character item) of
        Some g \<Rightarrow> status g = Done \<or> status g = Error
      | None \<Rightarrow> False)"

section \<open>albumUtils: createAlbumPage\<close>

text \<open>
  The canvas is the list of the calls made on its 2D context, in order. Coordinates are
  real numbers. A loaded image is its source and its natural size; either side may be 0.
  The vertical position and the height passed to \<open>drawImage\<close> are \<open>None\<close> when the
  code computes \<open>NaN\<close> for them.
\<close>

record img =
  src :: string
  naturalWidth :: nat
  naturalHeight :: nat

datatype draw_op =
    SetFillStyle string
  | SetStrokeStyle string
  | SetLineWidth real
  | SetTextAlign string
  | SetTextBaseline string
  | SetFont string
  | SetShadowColor string
  | SetShadowBlur real
  | SetShadowOffsetX real
  | SetShadowOffsetY real
  | FillRect real real real real
  | StrokeRect real real real real
  | FillText string real real
  | DrawImage img real "real option" real "real option"
  | Save
  | Restore
  | Translate real real
  | Rotate real

text \<open>The result: the canvas at \<open>canvas.toDataURL(mime, quality)\<close>.\<close>

record album =
  canvas_width :: nat
  canvas_height :: nat
  ops :: "draw_op list"
  mime :: string
  quality :: real

definition canvasWidth :: nat where "canvasWidth = 2480"
definition canvasHeight :: nat where "canvasHeight = 3508"

definition grid_cols :: nat where "grid_cols = 2"
definition grid_rows :: nat where "grid_rows = 3"
definition grid_padding :: real where "grid_padding = 100"

definition contentTopMargin :: real where "contentTopMargin = 300"

definition contentHeight :: real where
  "contentHeight = real canvasHeight - contentTopMargin"

definition cellWidth :: real where
  "cellWidth = (real canvasWidth - grid_padding * (real grid_cols + 1)) / real grid_cols"

definition cellHeight :: real where
  "cellHeight = (contentHeight - grid_padding * (real grid_rows + 1)) / real grid_rows"

definition cardAspectRatio :: real where "cardAspectRatio = 1.25"
definition maxCardWidth :: real where "maxCardWidth = cellWidth * 0.9"
definition maxCardHeight :: real where "maxCardHeight = cellHeight * 0.9"

text \<open>\<open>cardWidth\<close> and \<open>cardHeight\<close> after the \<open>if (cardHeight > maxCardHeight)\<close>.\<close>

definition cardHeight :: real where
  "cardHeight = (if maxCardWidth * cardAspectRatio > maxCardHeight then maxCardHeight
                 else maxCardWidth * cardAspectRatio)"

definition cardWidth :: real where
  "cardWidth = (if maxCardWidth * cardAspectRatio > maxCardHeight
                then maxCardHeight / cardAspectRatio else maxCardWidth)"

definition imageContainerWidth :: real where "imageContainerWidth = cardWidth * 0.9"
definition imageContainerHeight :: real where "imageContainerHeight = imageContainerWidth * 1.1"

definition headerOps :: "draw_op list" where
  "headerOps =
     [SetFillStyle ''#111111'',
      FillRect 0 0 (real canvasWidth) (real canvasHeight),
      SetFillStyle ''#F59E0B'',
      SetTextAlign ''center'',
      SetFont ''140px 'Teko', sans-serif'',
      FillText ''PUBG LOBBY'' (real canvasWidth / 2) 160,
      SetFont ''50px 'Roboto', sans-serif'',
      SetFillStyle ''#AAA'',
      FillText ''Generated on Google AI Studio'' (real canvasWidth / 2) 230]"

text \<open>
  The width and the height an image is drawn with. \<open>aspectRatio\<close> is
  \<open>naturalWidth / naturalHeight\<close> in floating point: \<open>Infinity\<close> for a height of 0,
  and then \<open>drawHeight = drawWidth / aspectRatio\<close> is 0; 0 for a width of 0, and then
  \<open>drawHeight\<close> is \<open>Infinity\<close>, which is cut to the container's height, and
  \<open>drawWidth = drawHeight * aspectRatio\<close> is 0; \<open>NaN\<close> when both are 0, and then
  \<open>drawHeight\<close> is \<open>NaN\<close>, the comparison is false and the width stays the
  container's.
\<close>

definition fitImage :: "img \<Rightarrow> real \<times> real option" where
  "fitImage im =
     (if naturalHeight im = 0 then
        (if naturalWidth im = 0 then (imageContainerWidth, None)
         else (imageContainerWidth, Some 0))
      else if naturalWidth im = 0 then (0, Some imageContainerHeight)
      else
        (let aspectRatio = real (naturalWidth im) / real (naturalHeight im);
             drawHeight = imageContainerWidth / aspectRatio
         in if drawHeight > imageContainerHeight
            then (imageContainerHeight * aspectRatio, Some imageContainerHeight)
            else (imageContainerWidth, Some drawHeight)))"

text \<open>
  The body of the \<open>forEach\<close>: \<open>n\<close> is the number of cards, \<open>reversedIndex\<close> the
  position in the reversed list, \<open>r\<close> the value of \<open>Math.random()\<close>.
\<close>

definition drawCard :: "nat \<Rightarrow> real \<Rightarrow> string \<times> img \<Rightarrow> nat \<Rightarrow> draw_op list" where
  "drawCard n r entry reversedIndex =
     (case entry of (label, im) \<Rightarrow>
      (let index = n - 1 - reversedIndex;
           row = index div grid_cols;
           col = index mod grid_cols;
           x = grid_padding * (real col + 1) + cellWidth * real col + (cellWidth - cardWidth) / 2;
           y = contentTopMargin + grid_padding * (real row + 1) + cellHeight * real row
               + (cellHeight - cardHeight) / 2;
           rotation = (r - 0.5) * 0.08;
           drawWidth = fst (fitImage im);
           drawHeight = snd (fitImage im);
           imageAreaTopMargin = (cardWidth - imageContainerWidth) / 2.5;
           imageContainerY = - cardHeight / 2 + imageAreaTopMargin;
           imgX = - drawWidth / 2;
           imgY = map_option (\<lambda>h. imageContainerY + (imageContainerHeight - h) / 2) drawHeight;
           captionAreaTop = imageContainerY + imageContainerHeight;
           captionAreaBottom = cardHeight / 2;
           captionY = captionAreaTop + (captionAreaBottom - captionAreaTop) / 2
       in [Save,
           Translate (x + cardWidth / 2) (y + cardHeight / 2),
           Rotate rotation,
           SetShadowColor ''rgba(0, 0, 0, 0.7)'',
           SetShadowBlur 50,
           SetShadowOffsetX 15,
           SetShadowOffsetY 20,
           SetFillStyle ''#222'',
           FillRect (- cardWidth / 2) (- cardHeight / 2) cardWidth cardHeight,
           SetStrokeStyle ''#F59E0B'',
           SetLineWidth 8,
           StrokeRect (- cardWidth / 2) (- cardHeight / 2) cardWidth cardHeight,
           SetShadowColor ''transparent'',
           DrawImage im imgX imgY drawWidth drawHeight,
           SetFillStyle ''#F0F0F0'',
           SetFont ''80px 'Teko', sans-serif'',
           SetTextAlign ''center'',
           SetTextBaseline ''middle'',
           FillText label 0 captionY,
           Restore]))"

text \<open>
  \<open>loadImage\<close>: the decoder gives the natural size of a source, or fails.
\<close>

definition loadImage :: "(string \<Rightarrow> (nat \<times> nat) option) \<Rightarrow> string \<Rightarrow> img option" where
  "loadImage decoder u =
     (case decoder u of
        None \<Rightarrow> None
      | Some (w, h) \<Rightarrow> Some \<lparr>src = u, naturalWidth = w, naturalHeight = h\<rparr>)"

definition loadError :: "string \<Rightarrow> js_error" where
  "loadError u = new_Error (''Failed to load image: '' @ take 50 u @ ''...'')"

text \<open>
  \<open>Promise.all\<close> over the loads of all values: the loaded images in the order of the
  values when every load succeeds; otherwise the error of the load that fails first in
  time. \<open>loadTime i\<close> is the time at which the load of the \<open>i\<close>-th value ends.
\<close>

definition loadImages ::
  "(string \<Rightarrow> (nat \<times> nat) option) \<Rightarrow> (nat \<Rightarrow> nat) \<Rightarrow> string list \<Rightarrow> js_error + img list" where
  "loadImages decoder loadTime us =
     (case those (map (loadImage decoder) us) of
        Some ims \<Rightarrow> Inr ims
      | None \<Rightarrow>
          Inl (loadError
                 (us ! arg_min_list loadTime
                         (filter (\<lambda>i. decoder (us ! i) = None) [0..<length us]))))"

text \<open>
  \<open>createAlbumPage\<close>: \<open>imageData\<close> is the record as the list of its entries in the
  order of \<open>Object.keys\<close>; \<open>hasContext\<close> tells whether \<open>getContext('2d')\<close> gives a
  context; \<open>decoder\<close> and \<open>loadTime\<close> say how each image loads; \<open>rnd\<close> is
  \<open>Math.random\<close>, drawn once per card.
\<close>

definition createAlbumPage ::
  "bool \<Rightarrow> (string \<Rightarrow> (nat \<times> nat) option) \<Rightarrow> (nat \<Rightarrow> nat) \<Rightarrow> (nat \<Rightarrow> real)
     \<Rightarrow> (string \<times> string) list \<Rightarrow> js_error + album" where
  "createAlbumPage hasContext decoder loadTime rnd imageData =
     (if \<not> hasContext then Inl (new_Error ''Could not get 2D canvas context'')
      else
        (let characters = map fst imageData in
         case loadImages decoder loadTime (map snd imageData) of
           Inl e \<Rightarrow> Inl e
         | Inr loadedImages \<Rightarrow>
             (let imagesWithCharacters = zip characters loadedImages;
                  reversedImages = rev imagesWithCharacters;
                  n = length imagesWithCharacters;
                  cards = concat (map (\<lambda>(entry, reversedIndex).
                                         drawCard n (rnd reversedIndex) entry reversedIndex)
                                      (zip reversedImages [0..<length reversedImages]))
              in Inr \<lparr>canvas_width = canvasWidth, canvas_height = canvasHeight,
                      ops = headerOps @ cards, mime = ''image/jpeg'', quality = 0.9\<rparr>)))"

text \<open>What a list of calls shows: the texts drawn, and the origins the context was moved to.\<close>

fun captions :: "draw_op list \<Rightarrow> string list" where
  "captions [] = []"
| "captions (FillText t x y # os) = t # captions os"
| "captions (_ # os) = captions os"

fun origins :: "draw_op list \<Rightarrow> (real \<times> real) list" where
  "origins [] = []"
| "origins (Translate x y # os) = (x, y) # origins os"
| "origins (_ # os) = origins os"

text \<open>
  The texts drawn while the context is moved to a card, each with the origin it is drawn
  around: \<open>translate\<close> sets the origin and \<open>restore\<close> leaves the card.
\<close>

fun placed :: "(real \<times> real) option \<Rightarrow> draw_op list \<Rightarrow> (string \<times> real \<times> real) list" where
  "placed cur [] = []"
| "placed cur (Translate x y # os) = placed (Some (x, y)) os"
| "placed cur (Restore # os) = placed None os"
| "placed cur (FillText t x y # os) =
     (case cur of None \<Rightarrow> placed cur os | Some c \<Rightarrow> (t, c) # placed cur os)"
| "placed cur (_ # os) = placed cur os"

text \<open>The images drawn, in drawing order.\<close>

fun drawnImages :: "draw_op list \<Rightarrow> img list" where
  "drawnImages [] = []"
| "drawnImages (DrawImage im x y w h # os) = im # drawnImages os"
| "drawnImages (_ # os) = drawnImages os"

text \<open>The centre of the grid cell in row \<open>row\<close> and column \<open>col\<close> of the page.\<close>

definition cellCentre :: "nat \<Rightarrow> nat \<Rightarrow> real \<times> real" where
  "cellCentre row col =
     (100 * (real col + 1) + 1090 * real col + 545,
      300 + 100 * (real row + 1) + 936 * real row + 468)"

text \<open>What every state of a run satisfies.\<close>

definition sched_inv :: "GenerationItem list \<Rightarrow> run \<Rightarrow> bool" where
  "sched_inv items s \<longleftrightarrow>
     length (workers s) = 2
     \<and> dequeued s @ itemsQueue s = items
     \<and> mset (dequeued s) = mset (settled s) + mset (inFlight (workers s))
     \<and> list_all (terminal (run_app s)) (settled s)
     \<and> (if Finished \<in> set (workers s) then itemsQueue s = [] else True)
     \<and> (if isLoading (run_app s) then True
         else list_all (\<lambda>wk. wk = Finished) (workers s) \<and> appState (run_app s) = results_shown)"


section \<open>Sample inputs\<close>

text \<open>The loads of a page end in the reverse order of the entries.\<close>

definition sampleLoadTime :: "nat \<Rightarrow> nat" where
  "sampleLoadTime i = 10 - i"

definition emptyWorld :: world where
  "emptyWorld = \<lparr>calls = [], delays = []\<rparr>"

definition rndHalf :: "nat \<Rightarrow> real" where
  "rndHalf i = 1 / 2"

definition sampleUrl :: string where
  "sampleUrl = ''data:image/png;base64,AAAA''"

definition unavailable :: js_error where
  "unavailable = \<lparr>is_Error = True, inner_code = Some 503, inner_message = Some ''overloaded'',
                   err_status = None, err_message = Some ''overloaded'', json = ''{}'',
                   as_string = ''Error: overloaded''\<rparr>"

definition badRequest :: js_error where
  "badRequest = \<lparr>is_Error = True, inner_code = Some 400, inner_message = Some ''bad request'',
                  err_status = None, err_message = Some ''bad request'', json = ''{}'',
                  as_string = ''Error: bad request''\<rparr>"

definition textReply :: "string \<Rightarrow> response" where
  "textReply t = \<lparr>parts = [\<lparr>inlineData = None, part_text = Some t\<rparr>], resp_text = Some t\<rparr>"

definition imageReply :: response where
  "imageReply = \<lparr>parts = [\<lparr>inlineData = Some (''image/png'', ''BBBB''), part_text = None\<rparr>],
                  resp_text = None\<rparr>"

text \<open>An endpoint that is unavailable for the first request and answers afterwards.\<close>

definition flakyRemote :: remote where
  "flakyRemote n req = (if n = 0 then Inl unavailable else Inr (textReply ''Male''))"

text \<open>An endpoint that refuses every request.\<close>

definition refusingRemote :: remote where
  "refusingRemote n req = Inl badRequest"

text \<open>An endpoint that answers every request with the one word \<open>Female\<close>.\<close>

definition femaleRemote :: remote where
  "femaleRemote n req = Inr (textReply ''Female'')"

definition samplePrompt :: string where
  "samplePrompt = ''Reimagine the person from the photo, wearing the iconic PUBG outfit: \"Ghillie Suit\".''"

text \<open>A prompt whose marker is followed by an empty pair of quotes.\<close>

definition emptyLabelPrompt :: string where
  "emptyLabelPrompt = ''Reimagine the person from the photo, wearing the iconic PUBG outfit: \"\".''"

text \<open>An endpoint that answers every request with text and no image.\<close>

definition textOnlyRemote :: remote where
  "textOnlyRemote n req = Inr (textReply ''no'')"

text \<open>An endpoint that answers the first request with text only and refuses the next ones.\<close>

definition rejectThenRefuse :: remote where
  "rejectThenRefuse n req = (if n = 0 then Inr (textReply ''no'') else Inl badRequest)"

text \<open>An endpoint that answers the first request with text only and then with an image.\<close>

definition rejectThenImage :: remote where
  "rejectThenImage n req = (if n = 0 then Inr (textReply ''no'') else Inr imageReply)"

definition sampleItems :: "GenerationItem list" where
  "sampleItems =
     [\<lparr>character = ''Trench coat'', map_name = ''Pochinki, Erangel'', scenario = ''looting''\<rparr>,
      \<lparr>character = ''Ghillie suit'', map_name = ''Pecado, Miramar'', scenario = ''scouting''\<rparr>,
      \<lparr>character = ''Biker jacket'', map_name = ''Bootcamp, Sanhok'', scenario = ''healing''\<rparr>,
      \<lparr>character = ''Hoodie'', map_name = ''Castle, Vikendi'', scenario = ''parachuting''\<rparr>]"

definition sampleApp :: app where
  "sampleApp = \<lparr>uploadedImage = Some sampleUrl, generatedImages = Map.empty, isLoading = False,
                 appState = generating, generationItems = sampleItems,
                 detectedGender = Some Unknown\<rparr>"

text \<open>The sample app while the generation of \<open>Ghillie suit\<close> is in flight.\<close>

definition pendingApp :: app where
  "pendingApp = sampleApp\<lparr>generatedImages := [''Ghillie suit'' \<mapsto> pendingImage]\<rparr>"

text \<open>
  A complete run over the four sample items: the first call fails, the others succeed,
  and the two workers settle in changing order.
\<close>

definition sampleEvents :: "event list" where
  "sampleEvents =
     [Settle 1 (Inr ''data:image/png;base64,BBBB''), Settle 0 (Inl badRequest),
      Resume 0, Resume 1,
      Settle 0 (Inr ''data:image/png;base64,CCCC''), Resume 0,
      Settle 1 (Inr ''data:image/png;base64,DDDD''), Resume 1, Join]"

text \<open>An endpoint that answers every request with an image.\<close>

definition imageRemote :: remote where
  "imageRemote n req = Inr imageReply"

text \<open>Four labelled images of different shapes, and a decoder that knows their sizes.\<close>

definition sampleImageData :: "(string \<times> string) list" where
  "sampleImageData =
     [(''Trench coat'', ''data:image/png;base64,WIDE''),
      (''Ghillie suit'', ''data:image/png;base64,TALL''),
      (''Biker jacket'', ''data:image/png;base64,SQUARE''),
      (''Hoodie'', ''data:image/png;base64,PANORAMA'')]"

definition sampleDecoder :: "string \<Rightarrow> (nat \<times> nat) option" where
  "sampleDecoder u =
     (if u = ''data:image/png;base64,WIDE'' then Some (1600, 900)
      else if u = ''data:image/png;base64,TALL'' then Some (768, 1344)
      else if u = ''data:image/png;base64,SQUARE'' then Some (1024, 1024)
      else if u = ''data:image/png;base64,PANORAMA'' then Some (3000, 1000)
      else None)"

text \<open>A thrown value that is no \<open>Error\<close> and has a message but no status.\<close>

definition internalFailure :: js_error where
  "internalFailure = \<lparr>is_Error = False, inner_code = None, inner_message = None,
                       err_status = None, err_message = Some ''An INTERNAL error occurred'',
                       json = ''{\"message\":\"An INTERNAL error occurred\"}'',
                       as_string = ''[object Object]''\<rparr>"

text \<open>A throttled request: status 429 on the thrown value itself.\<close>

definition throttled :: js_error where
  "throttled = \<lparr>is_Error = True, inner_code = None, inner_message = None,
                 err_status = Some 429, err_message = Some ''Too many requests'', json = ''{}'',
                 as_string = ''Error: Too many requests''\<rparr>"

text \<open>A page with two sources that do not decode.\<close>

definition brokenImageData :: "(string \<times> string) list" where
  "brokenImageData =
     [(''Trench coat'', ''data:image/png;base64,WIDE''),
      (''Ghillie suit'', ''data:image/png;base64,BROKEN1''),
      (''Biker jacket'', ''data:image/png;base64,SQUARE''),
      (''Hoodie'', ''data:image/png;base64,BROKEN2'')]"

section \<open>The retry policy\<close>

lemma withRetry_unrolled:
  "withRetry rnd (generateContent remote req) w =
     (case remote (length (calls w)) req of
        Inr v \<Rightarrow> (Inr v, w\<lparr>calls := calls w @ [req]\<rparr>)
      | Inl e1 \<Rightarrow>
         (if \<not> isRetriable e1 then (Inl (rethrow e1), w\<lparr>calls := calls w @ [req]\<rparr>)
          else
            (case remote (length (calls w) + 1) req of
               Inr v \<Rightarrow> (Inr v, w\<lparr>calls := calls w @ [req, req],
                                  delays := delays w @ [retryDelay 1 (rnd (length (delays w)))]\<rparr>)
             | Inl e2 \<Rightarrow>
                (if \<not> isRetriable e2 then
                   (Inl (rethrow e2), w\<lparr>calls := calls w @ [req, req],
                                  delays := delays w @ [retryDelay 1 (rnd (length (delays w)))]\<rparr>)
                 else
                   (case remote (length (calls w) + 2) req of
                      Inr v \<Rightarrow> (Inr v, w\<lparr>calls := calls w @ [req, req, req],
                                  delays := delays w @ [retryDelay 1 (rnd (length (delays w))),
                                                        retryDelay 2 (rnd (length (delays w) + 1))]\<rparr>)
                    | Inl e3 \<Rightarrow> (Inl (rethrow e3), w\<lparr>calls := calls w @ [req, req, req],
                                  delays := delays w @ [retryDelay 1 (rnd (length (delays w))),
                                                        retryDelay 2 (rnd (length (delays w) + 1))]\<rparr>))))))"
  unfolding withRetry_def
  apply (subst withRetryFrom.simps)
  apply (subst withRetryFrom.simps)
  apply (subst withRetryFrom.simps)
  apply (simp add: maxRetries_def generateContent_def numeral_2_eq_2 split: sum.splits)
  done

lemma upt_1_2: "[1..<2] = [1::nat]" by (simp add: upt_rec)
lemma upt_1_3: "[1..<3] = [1::nat, 2]" by (simp add: upt_rec)
lemma between_1_2: "1 \<le> k \<and> k < (2::nat) \<Longrightarrow> k = 1" by arith
lemma between_1_3: "1 \<le> k \<and> k < (3::nat) \<Longrightarrow> k = 1 \<or> k = 2" by arith
lemma below_2: "k < (2::nat) \<Longrightarrow> k = 0 \<or> k = 1" by arith

text \<open>
  C3. A remote call under the retry policy is attempted \<open>n\<close> times with
  \<open>1 \<le> n \<le> 3\<close>, always with the same request. Retry attempt \<open>k + 1\<close> happens
  only after attempt \<open>k\<close> failed with a retriable error, and after a delay of
  \<open>1000 * 2 ^ (k - 1)\<close> ms plus the random draw times 1000, which lies in
  \<open>[0, 1000)\<close> when the draw lies in \<open>[0, 1)\<close>. The outcome is that of the last
  attempt; a failure that ends the loop before the third attempt is not retriable. A
  first failure that is not retriable gives exactly one attempt, no delay, and the error
  rethrown (the same value when it is an \<open>Error\<close>).
\<close>

theorem withRetry_policy:
  assumes run: "withRetry rnd (generateContent remote req) w = (r, w')"
  shows "\<exists>n. 1 \<le> n \<and> n \<le> 3
      \<and> calls w' = calls w @ replicate n req
      \<and> delays w' = delays w
           @ map (\<lambda>k. 1000 * 2 ^ (k - 1) + rnd (length (delays w) + k - 1) * 1000) [1..<n]
      \<and> (\<forall>k. 1 \<le> k \<and> k < n \<longrightarrow>
             (\<exists>e. remote (length (calls w) + k - 1) req = Inl e \<and> isRetriable e))
      \<and> (case remote (length (calls w) + n - 1) req of
            Inr v \<Rightarrow> r = Inr v
          | Inl e \<Rightarrow> r = Inl (rethrow e) \<and> (is_Error e \<longrightarrow> r = Inl e) \<and> (isRetriable e \<longrightarrow> n = 3))
      \<and> (\<forall>e. remote (length (calls w)) req = Inl e \<and> \<not> isRetriable e \<longrightarrow>
             n = 1 \<and> delays w' = delays w \<and> r = Inl (rethrow e))
      \<and> ((\<forall>i. 0 \<le> rnd i \<and> rnd i < 1) \<longrightarrow>
             (\<forall>k < n - 1. 1000 * 2 ^ k \<le> delays w' ! (length (delays w) + k)
                        \<and> delays w' ! (length (delays w) + k) < 1000 * 2 ^ k + 1000))"
proof (cases "remote (length (calls w)) req")
  case (Inr v)
  with run have "r = Inr v" "w' = w\<lparr>calls := calls w @ [req]\<rparr>"
    by (simp_all add: withRetry_unrolled)
  with Inr show ?thesis
    by (intro exI[of _ 1]) simp
next
  case e1: (Inl e1)
  show ?thesis
  proof (cases "isRetriable e1")
    case False
    with run e1 have "r = Inl (rethrow e1)" "w' = w\<lparr>calls := calls w @ [req]\<rparr>"
      by (simp_all add: withRetry_unrolled)
    with e1 False show ?thesis
      by (intro exI[of _ 1]) (simp add: rethrow_def)
  next
    case r1: True
    show ?thesis
    proof (cases "remote (length (calls w) + 1) req")
      case (Inr v)
      with run e1 r1 have res: "r = Inr v"
        "w' = w\<lparr>calls := calls w @ [req, req],
               delays := delays w @ [1000 + rnd (length (delays w)) * 1000]\<rparr>"
        by (simp_all add: withRetry_unrolled retryDelay_def initialDelay_def)
      show ?thesis
      proof (intro exI[of _ 2] conjI allI impI)
        fix k :: nat assume "1 \<le> k \<and> k < 2"
        then have "k = 1" by arith
        with e1 r1 show "\<exists>e. remote (length (calls w) + k - 1) req = Inl e \<and> isRetriable e"
          by simp
      next
        fix k :: nat assume rg: "\<forall>i. 0 \<le> rnd i \<and> rnd i < 1" and "k < 2 - 1"
        then have k: "k = 0" by arith
        from rg have "0 \<le> rnd (length (delays w))" "rnd (length (delays w)) < 1" by auto
        with res k show "1000 * 2 ^ k \<le> delays w' ! (length (delays w) + k)"
          "delays w' ! (length (delays w) + k) < 1000 * 2 ^ k + 1000"
          by simp_all
      qed (use res Inr e1 r1 in \<open>simp_all add: upt_1_2 numeral_2_eq_2\<close>)
    next
      case e2: (Inl e2)
      show ?thesis
      proof (cases "isRetriable e2")
        case False
        with run e1 r1 e2 have res: "r = Inl (rethrow e2)"
          "w' = w\<lparr>calls := calls w @ [req, req],
                 delays := delays w @ [1000 + rnd (length (delays w)) * 1000]\<rparr>"
          by (simp_all add: withRetry_unrolled retryDelay_def initialDelay_def)
        show ?thesis
        proof (intro exI[of _ 2] conjI allI impI)
          fix k :: nat assume "1 \<le> k \<and> k < 2"
          then have "k = 1" by arith
          with e1 r1 show "\<exists>e. remote (length (calls w) + k - 1) req = Inl e \<and> isRetriable e"
            by simp
        next
          fix k :: nat assume rg: "\<forall>i. 0 \<le> rnd i \<and> rnd i < 1" and "k < 2 - 1"
          then have k: "k = 0" by arith
          from rg have "0 \<le> rnd (length (delays w))" "rnd (length (delays w)) < 1" by auto
          with res k show "1000 * 2 ^ k \<le> delays w' ! (length (delays w) + k)"
          "delays w' ! (length (delays w) + k) < 1000 * 2 ^ k + 1000"
          by simp_all
        qed (use res False e1 e2 r1 in \<open>simp_all add: upt_1_2 numeral_2_eq_2 rethrow_def\<close>)
      next
        case r2: True
        define r3 where "r3 = (case remote (length (calls w) + 2) req of
                                 Inr v \<Rightarrow> Inr v | Inl e \<Rightarrow> Inl (rethrow e))"
        have w': "w' = w\<lparr>calls := calls w @ [req, req, req],
                 delays := delays w @ [1000 + rnd (length (delays w)) * 1000,
                                       2000 + rnd (length (delays w) + 1) * 1000]\<rparr>"
          and r: "r = r3"
        proof -
          show "w' = w\<lparr>calls := calls w @ [req, req, req],
                 delays := delays w @ [1000 + rnd (length (delays w)) * 1000,
                                       2000 + rnd (length (delays w) + 1) * 1000]\<rparr>"
            using run e1 r1 e2 r2
            by (cases "remote (length (calls w) + 2) req")
               (simp_all add: withRetry_unrolled retryDelay_def initialDelay_def)
          show "r = r3"
          proof (cases "remote (length (calls w) + 2) req")
            case (Inr v)
            with e1 r1 e2 r2 have "fst (withRetry rnd (generateContent remote req) w) = Inr v"
              by (simp add: withRetry_unrolled)
            with run Inr show ?thesis by (simp add: r3_def)
          next
            case (Inl e3)
            with e1 r1 e2 r2
            have "fst (withRetry rnd (generateContent remote req) w) = Inl (rethrow e3)"
              by (simp add: withRetry_unrolled)
            with run Inl show ?thesis by (simp add: r3_def)
          qed
        qed
        note res = r w'
        show ?thesis
        proof (intro exI[of _ 3] conjI allI impI)
          fix k :: nat assume "1 \<le> k \<and> k < 3"
          then have "k = 1 \<or> k = 2" by arith
          with e1 r1 e2 r2 show "\<exists>e. remote (length (calls w) + k - 1) req = Inl e \<and> isRetriable e"
            by auto
        next
          fix k :: nat assume rg: "\<forall>i. 0 \<le> rnd i \<and> rnd i < 1" and "k < 3 - 1"
          then have k: "k = 0 \<or> k = 1" by arith
          from rg have "0 \<le> rnd (length (delays w))" "rnd (length (delays w)) < 1"
            "0 \<le> rnd (length (delays w) + 1)" "rnd (length (delays w) + 1) < 1" by auto
          with res k show "1000 * 2 ^ k \<le> delays w' ! (length (delays w) + k)"
          "delays w' ! (length (delays w) + k) < 1000 * 2 ^ k + 1000"
          by (auto simp: nth_append)
        qed (use res e1 e2 r1 r2 in
              \<open>simp_all add: upt_1_3 numeral_3_eq_3 numeral_2_eq_2 rethrow_def r3_def split: sum.splits\<close>)
      qed
    qed
  qed
qed

lemma isRetriable_unavailable: "isRetriable unavailable"
  by (simp add: isRetriable_def statusOf_def unavailable_def)

lemma not_isRetriable_badRequest: "\<not> isRetriable badRequest"
  unfolding isRetriable_def statusOf_def messageOf_def badRequest_def
  by code_simp

lemma withRetry_flaky:
  "withRetry rndHalf (generateContent flakyRemote (genderRequest ''image/png'' ''AAAA'')) emptyWorld
     = (Inr (textReply ''Male''),
        \<lparr>calls = [genderRequest ''image/png'' ''AAAA'', genderRequest ''image/png'' ''AAAA''],
         delays = [1500]\<rparr>)"
  by (simp add: withRetry_unrolled flakyRemote_def emptyWorld_def isRetriable_unavailable
        retryDelay_def initialDelay_def rndHalf_def)

lemma withRetry_refusing:
  "withRetry rndHalf (generateContent refusingRemote (genderRequest ''image/png'' ''AAAA'')) emptyWorld
     = (Inl badRequest, \<lparr>calls = [genderRequest ''image/png'' ''AAAA''], delays = []\<rparr>)"
  by (simp add: withRetry_unrolled refusingRemote_def emptyWorld_def not_isRetriable_badRequest
        rethrow_def) (simp add: badRequest_def)

text \<open>
  The policy at two endpoints: one that is unavailable once (two attempts, one delay of
  1500 ms) and one that refuses (one attempt, no delay).
\<close>

theorem withRetry_policy_witness:
  "(\<forall>i. 0 \<le> rndHalf i \<and> rndHalf i < 1)
   \<and> withRetry rndHalf (generateContent flakyRemote (genderRequest ''image/png'' ''AAAA'')) emptyWorld
       = (Inr (textReply ''Male''),
          \<lparr>calls = [genderRequest ''image/png'' ''AAAA'', genderRequest ''image/png'' ''AAAA''],
           delays = [1500]\<rparr>)
   \<and> (\<exists>n. 1 \<le> n \<and> n \<le> 3
         \<and> [genderRequest ''image/png'' ''AAAA'', genderRequest ''image/png'' ''AAAA'']
             = replicate n (genderRequest ''image/png'' ''AAAA'')
         \<and> (\<forall>k < n - 1. 1000 * 2 ^ k \<le> [1500::real] ! k \<and> [1500::real] ! k < 1000 * 2 ^ k + 1000))
   \<and> flakyRemote 0 (genderRequest ''image/png'' ''AAAA'') = Inl unavailable \<and> isRetriable unavailable
   \<and> refusingRemote 0 (genderRequest ''image/png'' ''AAAA'') = Inl badRequest
   \<and> \<not> isRetriable badRequest
   \<and> withRetry rndHalf (generateContent refusingRemote (genderRequest ''image/png'' ''AAAA'')) emptyWorld
       = (Inl badRequest, \<lparr>calls = [genderRequest ''image/png'' ''AAAA''], delays = []\<rparr>)
   \<and> (\<exists>n. n = 1 \<and> [genderRequest ''image/png'' ''AAAA''] = replicate n (genderRequest ''image/png'' ''AAAA''))"
proof -
  have rg: "\<forall>i. 0 \<le> rndHalf i \<and> rndHalf i < 1" by (simp add: rndHalf_def)
  from withRetry_policy [OF withRetry_flaky] rg
  have a: "\<exists>n. 1 \<le> n \<and> n \<le> 3
         \<and> [genderRequest ''image/png'' ''AAAA'', genderRequest ''image/png'' ''AAAA'']
             = replicate n (genderRequest ''image/png'' ''AAAA'')
         \<and> (\<forall>k < n - 1. 1000 * 2 ^ k \<le> [1500::real] ! k \<and> [1500::real] ! k < 1000 * 2 ^ k + 1000)"
    by (simp add: emptyWorld_def) blast
  have r0: "refusingRemote 0 (genderRequest ''image/png'' ''AAAA'') = Inl badRequest"
    by (simp add: refusingRemote_def)
  from withRetry_policy [OF withRetry_refusing] r0 not_isRetriable_badRequest
  have b: "\<exists>n. n = 1 \<and> [genderRequest ''image/png'' ''AAAA'']
                  = replicate n (genderRequest ''image/png'' ''AAAA'')"
    by (simp add: emptyWorld_def)
  have f0: "flakyRemote 0 (genderRequest ''image/png'' ''AAAA'') = Inl unavailable"
    by (simp add: flakyRemote_def)
  from rg withRetry_flaky a f0 isRetriable_unavailable r0 not_isRetriable_badRequest
       withRetry_refusing b
  show ?thesis by blast
qed

section \<open>String searches\<close>

lemma startsWith_iff: "startsWith s p \<longleftrightarrow> (\<exists>r. s = p @ r)"
  by (induction s p rule: startsWith.induct) auto

lemma includes_str_iff: "includes_str s sub \<longleftrightarrow> (\<exists>a b. s = a @ sub @ b)"
proof (induction s)
  case Nil
  show ?case by auto
next
  case (Cons c cs)
  show ?case
  proof
    assume "includes_str (c # cs) sub"
    then consider "startsWith (c # cs) sub" | "includes_str cs sub" by auto
    then show "\<exists>a b. c # cs = a @ sub @ b"
    proof cases
      case 1
      then obtain r where "c # cs = sub @ r" by (auto simp: startsWith_iff)
      then have "c # cs = [] @ sub @ r" by simp
      then show ?thesis by blast
    next
      case 2
      with Cons obtain a b where "cs = a @ sub @ b" by auto
      then have "c # cs = (c # a) @ sub @ b" by simp
      then show ?thesis by blast
    qed
  next
    assume "\<exists>a b. c # cs = a @ sub @ b"
    then obtain a b where ab: "c # cs = a @ sub @ b" by auto
    show "includes_str (c # cs) sub"
    proof (cases a)
      case Nil
      with ab have "startsWith (c # cs) sub" by (auto simp: startsWith_iff)
      then show ?thesis by simp
    next
      case (Cons x a')
      with ab have "cs = a' @ sub @ b" by simp
      with Cons.IH have "includes_str cs sub" by blast
      then show ?thesis by simp
    qed
  qed
qed

lemma includes_female_male:
  assumes "includes_str s ''female''"
  shows "includes_str s ''male''"
proof -
  from assms obtain a b where "s = a @ ''female'' @ b" by (auto simp: includes_str_iff)
  then have "s = (a @ ''fe'') @ ''male'' @ b" by simp
  then show ?thesis unfolding includes_str_iff by blast
qed

section \<open>The gender classifier\<close>

lemma matchDataUrl_sampleUrl: "matchDataUrl sampleUrl = Some (''image/png'', ''AAAA'')"
  by (simp add: sampleUrl_def matchDataUrl_def isWordChar_def isLineTerminator_def)

lemma detectGender_never_Female: "fst (detectGender rnd remote imageDataUrl w) \<noteq> Inr Female"
  by (auto simp: detectGender_def Let_def includes_female_male
           split: option.splits prod.splits sum.splits)

text \<open>
  C2. A reply whose text contains \<open>female\<close> should classify as \<open>Female\<close>. The
  check for \<open>male\<close> comes first and \<open>female\<close> contains \<open>male\<close>: on the reply
  \<open>Female\<close> the classifier answers \<open>Male\<close>.
\<close>

theorem detectGender_Female_reply_yields_Male:
  "detectGender rndHalf femaleRemote sampleUrl emptyWorld
     = (Inr Male, \<lparr>calls = [genderRequest ''image/png'' ''AAAA''], delays = []\<rparr>)"
proof -
  have "includes_str (toLowerCase (trim ''Female'')) ''male''" by code_simp
  then show ?thesis
    by (simp add: detectGender_def matchDataUrl_sampleUrl withRetry_unrolled femaleRemote_def
          emptyWorld_def textReply_def)
qed

text \<open>
  C6 as stated fails: an input that is not a data URL makes the classifier throw.
\<close>

theorem detectGender_throws_on_malformed_input:
  "detectGender rndHalf femaleRemote ''hello'' emptyWorld
     = (Inl (new_Error ''Invalid image data URL format for gender detection.''), emptyWorld)"
  by (simp add: detectGender_def matchDataUrl_def)

text \<open>
  C6, amended. On every input that matches the data-URL pattern the classifier returns a
  gender and never throws; when the call still fails after the retry policy, the failure
  is swallowed and the answer is \<open>Unknown\<close>.
\<close>

theorem detectGender_swallows_failures:
  assumes "matchDataUrl imageDataUrl = Some (mimeType, base64Data)"
  shows "(\<exists>g w'. detectGender rnd remote imageDataUrl w = (Inr g, w'))
       \<and> (\<forall>e w'. withRetry rnd (generateContent remote (genderRequest mimeType base64Data)) w
                    = (Inl e, w')
              \<longrightarrow> detectGender rnd remote imageDataUrl w = (Inr Unknown, w'))"
  using assms
  by (auto simp: detectGender_def Let_def split: option.splits prod.splits sum.splits)

theorem detectGender_swallows_failures_witness:
  "matchDataUrl sampleUrl = Some (''image/png'', ''AAAA'')
   \<and> withRetry rndHalf (generateContent refusingRemote (genderRequest ''image/png'' ''AAAA'')) emptyWorld
       = (Inl badRequest, \<lparr>calls = [genderRequest ''image/png'' ''AAAA''], delays = []\<rparr>)
   \<and> detectGender rndHalf refusingRemote sampleUrl emptyWorld
       = (Inr Unknown, \<lparr>calls = [genderRequest ''image/png'' ''AAAA''], delays = []\<rparr>)"
  using detectGender_swallows_failures [OF matchDataUrl_sampleUrl, of rndHalf refusingRemote emptyWorld]
    matchDataUrl_sampleUrl withRetry_refusing
  by simp

section \<open>The outfit label and the fallback prompt\<close>








section \<open>The data-URL pattern\<close>

lemma not_isWordChar_semicolon: "\<not> isWordChar CHR '';''"
  by (simp add: isWordChar_def)

lemma matchDataUrl_Some_iff:
  "matchDataUrl s = Some (m, d) \<longleftrightarrow>
     (\<exists>w. s = ''data:image/'' @ w @ '';base64,'' @ d \<and> w \<noteq> [] \<and> list_all isWordChar w
          \<and> \<not> list_ex isLineTerminator d \<and> m = ''image/'' @ w)"
proof
  assume a: "matchDataUrl s = Some (m, d)"
  then have sw: "startsWith s ''data:image/''"
    by (simp add: matchDataUrl_def split: if_splits)
  then obtain r where s: "s = ''data:image/'' @ r" unfolding startsWith_iff by blast
  define w where "w = takeWhile isWordChar r"
  define r' where "r' = drop (length w) r"
  have r: "r = w @ r'" unfolding r'_def w_def by (simp add: dropWhile_eq_drop[symmetric])
  from a sw s have c: "w \<noteq> []" "startsWith r' '';base64,''"
      "\<not> list_ex isLineTerminator (drop 8 r')" "m = ''image/'' @ w" "d = drop 8 r'"
    by (simp_all add: matchDataUrl_def Let_def w_def r'_def split: if_splits)
  from c(2) obtain t where t: "r' = '';base64,'' @ t" unfolding startsWith_iff by blast
  with c(5) have "d = t" by simp
  with s r t have "s = ''data:image/'' @ w @ '';base64,'' @ d" by simp
  moreover have "list_all isWordChar w"
    unfolding w_def list_all_iff by (auto dest: set_takeWhileD)
  ultimately show "\<exists>w. s = ''data:image/'' @ w @ '';base64,'' @ d \<and> w \<noteq> [] \<and> list_all isWordChar w
          \<and> \<not> list_ex isLineTerminator d \<and> m = ''image/'' @ w"
    using c \<open>d = t\<close> t by auto
next
  assume "\<exists>w. s = ''data:image/'' @ w @ '';base64,'' @ d \<and> w \<noteq> [] \<and> list_all isWordChar w
          \<and> \<not> list_ex isLineTerminator d \<and> m = ''image/'' @ w"
  then obtain w where s: "s = ''data:image/'' @ w @ '';base64,'' @ d" and w: "w \<noteq> []"
    "list_all isWordChar w" and d: "\<not> list_ex isLineTerminator d" and m: "m = ''image/'' @ w"
    by blast
  have sw: "startsWith s ''data:image/''" unfolding startsWith_iff s by blast
  have dr: "drop 11 s = w @ '';base64,'' @ d" unfolding s by simp
  have tw: "takeWhile isWordChar (w @ '';base64,'' @ d) = w"
  proof -
    have "takeWhile isWordChar (w @ '';base64,'' @ d)
            = w @ takeWhile isWordChar ('';base64,'' @ d)"
      using w(2) by (intro takeWhile_append2) (simp add: list_all_iff)
    then show ?thesis by (simp add: not_isWordChar_semicolon)
  qed
  have sw2: "startsWith ('';base64,'' @ d) '';base64,''" unfolding startsWith_iff by blast
  show "matchDataUrl s = Some (m, d)"
    unfolding matchDataUrl_def using sw sw2 w d m
    by (simp only: dr Let_def tw if_True) simp
qed

section \<open>Image generation\<close>



lemma noImage_message_recognised:
  "includes_str (errorMessageOf (new_Error (noImagePrefix @ t))) noImagePrefix"
proof -
  have "noImagePrefix @ t = [] @ noImagePrefix @ t" by simp
  then show ?thesis
    unfolding includes_str_iff errorMessageOf_def new_Error_def by auto
qed

lemma extractCharacter_samplePrompt: "extractCharacter samplePrompt = Some ''Ghillie Suit''"
  by (simp add: extractCharacter_def samplePrompt_def matchOutfitHere_def outfitMarker_def
        isLineTerminator_def)

lemma extractCharacter_emptyLabelPrompt: "extractCharacter emptyLabelPrompt = Some []"
  by (simp add: extractCharacter_def emptyLabelPrompt_def matchOutfitHere_def outfitMarker_def
        isLineTerminator_def)

text \<open>
  C10. An input string that does not match the data-URL pattern makes both exported
  calls throw their invalid-format error with the world unchanged: no request is issued
  and no delay is slept.
\<close>

theorem malformed_url_rejected_before_any_call:
  assumes "matchDataUrl imageDataUrl = None"
  shows "generateCharacterImage rnd remote imageDataUrl prompt w
           = (Inl (new_Error (''Invalid image data URL format. Expected 'data:image/...;base64,...''
                              @ [CHR 0x27])), w)
       \<and> detectGender rnd remote imageDataUrl w
           = (Inl (new_Error ''Invalid image data URL format for gender detection.''), w)"
  using assms by (simp add: generateCharacterImage_def detectGender_def)

theorem malformed_url_rejected_before_any_call_witness:
  "matchDataUrl ''hello'' = None
   \<and> snd (generateCharacterImage rndHalf femaleRemote ''hello'' samplePrompt emptyWorld) = emptyWorld
   \<and> fst (detectGender rndHalf femaleRemote ''hello'' emptyWorld)
       = Inl (new_Error ''Invalid image data URL format for gender detection.'')"
proof -
  have h: "matchDataUrl ''hello'' = None" by (simp add: matchDataUrl_def)
  from malformed_url_rejected_before_any_call [OF h, of rndHalf femaleRemote samplePrompt emptyWorld] h
  show ?thesis by simp
qed




lemma processGeminiResponse_no:
  "processGeminiResponse (textReply ''no'')
     = Inl (new_Error (noImagePrefix @ '': \"no\"''))"
  by (simp add: processGeminiResponse_def noImageError_def textReply_def)

lemma tryGenerate_first_text_only:
  assumes "remote 0 req = Inr (textReply ''no'')"
  shows "tryGenerate rndHalf remote req emptyWorld
           = (Inl (new_Error (noImagePrefix @ '': \"no\"'')), \<lparr>calls = [req], delays = []\<rparr>)"
  using assms
  by (simp add: tryGenerate_def withRetry_unrolled emptyWorld_def processGeminiResponse_no)


lemma generate_emptyLabel:
  "generateCharacterImage rndHalf textOnlyRemote sampleUrl emptyLabelPrompt emptyWorld
     = (Inl (new_Error (noImagePrefix @ '': \"no\"'')),
        \<lparr>calls = [imageRequest ''image/png'' ''AAAA'' emptyLabelPrompt], delays = []\<rparr>)"
  by (simp add: generateCharacterImage_def matchDataUrl_sampleUrl tryGenerate_first_text_only
        textOnlyRemote_def noImage_message_recognised extractCharacter_emptyLabelPrompt)


lemma tryGenerate_second_refused:
  "tryGenerate rndHalf rejectThenRefuse req \<lparr>calls = [r0], delays = []\<rparr>
     = (Inl badRequest, \<lparr>calls = [r0, req], delays = []\<rparr>)"
  by (simp add: tryGenerate_def withRetry_unrolled rejectThenRefuse_def
        not_isRetriable_badRequest rethrow_def) (simp add: badRequest_def)

lemma finalErrorMessageOf_badRequest: "finalErrorMessageOf badRequest = ''bad request''"
  by (simp add: finalErrorMessageOf_def badRequest_def)


lemma generate_rejectThenRefuse:
  "generateCharacterImage rndHalf rejectThenRefuse sampleUrl samplePrompt emptyWorld
     = (Inl (new_Error (bothFailedPrefix @ ''bad request'')),
        \<lparr>calls = [imageRequest ''image/png'' ''AAAA'' samplePrompt,
                  imageRequest ''image/png'' ''AAAA'' (getFallbackPrompt ''Ghillie Suit'')],
         delays = []\<rparr>)"
  by (simp add: generateCharacterImage_def matchDataUrl_sampleUrl tryGenerate_first_text_only
        rejectThenRefuse_def noImage_message_recognised extractCharacter_samplePrompt
        tryGenerate_second_refused finalErrorMessageOf_badRequest)

text \<open>
  An empty capture counts as a failed extraction: for a prompt whose marker is followed
  by an empty pair of quotes no fallback request is made. The one request of the run is
  the primary one and the rejection error is thrown.
\<close>

lemma empty_capture_is_no_label:
  "extractCharacter emptyLabelPrompt = Some []
   \<and> generateCharacterImage rndHalf textOnlyRemote sampleUrl emptyLabelPrompt emptyWorld
       = (Inl (new_Error ''The AI model responded with text instead of an image: \"no\"''),
          \<lparr>calls = [imageRequest ''image/png'' ''AAAA'' emptyLabelPrompt], delays = []\<rparr>)"
  using extractCharacter_emptyLabelPrompt generate_emptyLabel
  by (simp add: noImagePrefix_def)


text \<open>
  C5 as stated fails: in this run the primary prompt is rejected and the fallback call
  is refused, and the thrown message is the fixed sentence followed by the fallback's
  error message; the primary attempt's message does not occur in it.
\<close>

theorem combined_failure_omits_primary_message:
  "tryGenerate rndHalf rejectThenRefuse (imageRequest ''image/png'' ''AAAA'' samplePrompt) emptyWorld
     = (Inl (new_Error ''The AI model responded with text instead of an image: \"no\"''),
        \<lparr>calls = [imageRequest ''image/png'' ''AAAA'' samplePrompt], delays = []\<rparr>)
   \<and> fst (generateCharacterImage rndHalf rejectThenRefuse sampleUrl samplePrompt emptyWorld)
       = Inl (new_Error
           ''The AI model failed with both original and fallback prompts. Last error: bad request'')
   \<and> \<not> includes_str
         ''The AI model failed with both original and fallback prompts. Last error: bad request''
         ''The AI model responded with text instead of an image: \"no\"''"
proof -
  have "tryGenerate rndHalf rejectThenRefuse (imageRequest ''image/png'' ''AAAA'' samplePrompt)
          emptyWorld
        = (Inl (new_Error (noImagePrefix @ '': \"no\"'')),
           \<lparr>calls = [imageRequest ''image/png'' ''AAAA'' samplePrompt], delays = []\<rparr>)"
    by (rule tryGenerate_first_text_only) (simp add: rejectThenRefuse_def)
  moreover have "\<not> includes_str
         ''The AI model failed with both original and fallback prompts. Last error: bad request''
         ''The AI model responded with text instead of an image: \"no\"''"
    by code_simp
  ultimately show ?thesis
    using generate_rejectThenRefuse by (simp add: noImagePrefix_def bothFailedPrefix_def)
qed

text \<open>
  C5, amended. When the primary attempt fails with the no-image error, a non-empty label
  is extracted and the fallback attempt fails too, the call throws one \<open>Error\<close> that
  wraps the fallback attempt's error message only: its message is exactly the fixed
  sentence that both prompts failed, followed by the message of the fallback attempt's
  error. The world is the one the fallback attempt left.
\<close>

theorem fallback_failure_reports_last_error:
  assumes "matchDataUrl imageDataUrl = Some (m, d)"
    and "tryGenerate rnd remote (imageRequest m d prompt) w = (Inl primaryError, w1)"
    and "includes_str (errorMessageOf primaryError) ''The AI model responded with text instead of an image''"
    and "extractCharacter prompt = Some c" and "c \<noteq> []"
    and "tryGenerate rnd remote (imageRequest m d (getFallbackPrompt c)) w1 = (Inl fallbackError, w2)"
  shows "generateCharacterImage rnd remote imageDataUrl prompt w
           = (Inl (new_Error
                (''The AI model failed with both original and fallback prompts. Last error: ''
                 @ finalErrorMessageOf fallbackError)), w2)"
  using assms
  by (simp add: generateCharacterImage_def Let_def noImagePrefix_def bothFailedPrefix_def)

theorem fallback_failure_reports_last_error_witness:
  "matchDataUrl sampleUrl = Some (''image/png'', ''AAAA'')
   \<and> tryGenerate rndHalf rejectThenRefuse (imageRequest ''image/png'' ''AAAA'' samplePrompt) emptyWorld
       = (Inl (new_Error (noImagePrefix @ '': \"no\"'')),
          \<lparr>calls = [imageRequest ''image/png'' ''AAAA'' samplePrompt], delays = []\<rparr>)
   \<and> extractCharacter samplePrompt = Some ''Ghillie Suit''
   \<and> tryGenerate rndHalf rejectThenRefuse
        (imageRequest ''image/png'' ''AAAA'' (getFallbackPrompt ''Ghillie Suit''))
        \<lparr>calls = [imageRequest ''image/png'' ''AAAA'' samplePrompt], delays = []\<rparr>
       = (Inl badRequest,
          \<lparr>calls = [imageRequest ''image/png'' ''AAAA'' samplePrompt,
                    imageRequest ''image/png'' ''AAAA'' (getFallbackPrompt ''Ghillie Suit'')],
           delays = []\<rparr>)
   \<and> generateCharacterImage rndHalf rejectThenRefuse sampleUrl samplePrompt emptyWorld
       = (Inl (new_Error
            ''The AI model failed with both original and fallback prompts. Last error: bad request''),
          \<lparr>calls = [imageRequest ''image/png'' ''AAAA'' samplePrompt,
                    imageRequest ''image/png'' ''AAAA'' (getFallbackPrompt ''Ghillie Suit'')],
           delays = []\<rparr>)"
proof -
  have t1: "tryGenerate rndHalf rejectThenRefuse (imageRequest ''image/png'' ''AAAA'' samplePrompt)
              emptyWorld
            = (Inl (new_Error (noImagePrefix @ '': \"no\"'')),
               \<lparr>calls = [imageRequest ''image/png'' ''AAAA'' samplePrompt], delays = []\<rparr>)"
    by (rule tryGenerate_first_text_only) (simp add: rejectThenRefuse_def)
  have inc: "includes_str (errorMessageOf (new_Error (noImagePrefix @ '': \"no\"'')))
               ''The AI model responded with text instead of an image''"
    using noImage_message_recognised[of "'': \"no\"''"] by (simp add: noImagePrefix_def)
  have ne: "''Ghillie Suit'' \<noteq> []" by simp
  from fallback_failure_reports_last_error
         [OF matchDataUrl_sampleUrl t1 inc extractCharacter_samplePrompt ne
             tryGenerate_second_refused]
  have "generateCharacterImage rndHalf rejectThenRefuse sampleUrl samplePrompt emptyWorld
       = (Inl (new_Error
            ''The AI model failed with both original and fallback prompts. Last error: bad request''),
          \<lparr>calls = [imageRequest ''image/png'' ''AAAA'' samplePrompt,
                    imageRequest ''image/png'' ''AAAA'' (getFallbackPrompt ''Ghillie Suit'')],
           delays = []\<rparr>)"
    by (simp add: finalErrorMessageOf_badRequest)
  with matchDataUrl_sampleUrl t1 extractCharacter_samplePrompt tryGenerate_second_refused
  show ?thesis by blast
qed

section \<open>The generation scheduler\<close>

lemma two_workers: "length ws = 2 \<Longrightarrow> \<exists>w0 w1. ws = [w0, w1]"
  by (cases ws; simp) (metis length_0_conv length_Suc_conv)

lemma below_two: "i < (2::nat) \<Longrightarrow> i = 0 \<or> i = 1"
  by arith

lemma terminal_publish_same: "terminal (publish (character item) r a) item"
  by (simp add: terminal_def publish_def doneImage_def errorImage_def split: sum.splits)

lemma terminal_publish_other:
  "terminal a item' \<Longrightarrow> terminal (publish label r a) item'"
  by (simp add: terminal_def publish_def doneImage_def errorImage_def split: sum.splits)

lemma list_all_terminal_publish:
  "list_all (terminal a) xs \<Longrightarrow> list_all (terminal (publish label r a)) xs"
  by (simp add: list_all_iff terminal_publish_other)

lemma terminal_app_fields:
  "terminal (a\<lparr>isLoading := b, appState := st\<rparr>) = terminal a"
  by (rule ext) (simp add: terminal_def)

lemma isLoading_publish: "isLoading (publish label r a) = isLoading a"
  by (simp add: publish_def)

lemma appState_publish: "appState (publish label r a) = appState a"
  by (simp add: publish_def)

lemma step_inv:
  assumes "sched_inv items s" and "step e s = Some s'"
  shows "sched_inv items s' \<and> Suc (remaining s') = remaining s"
proof -
  from assms(1) have "length (workers s) = 2" by (simp add: sched_inv_def)
  then obtain w0 w1 where ws: "workers s = [w0, w1]"
    using two_workers by blast
  show ?thesis
  proof (cases e)
    case (Settle i r)
    with assms(2) have i: "i < 2" using ws by (simp split: if_splits)
    with Settle assms ws show ?thesis
      by (cases w0; cases w1; cases "i = 0")
         (auto simp: sched_inv_def remaining_def list_all_terminal_publish terminal_publish_same
                     isLoading_publish appState_publish
               dest!: below_two split: if_splits)
  next
    case (Resume i)
    with assms(2) have i: "i < 2" using ws by (simp split: if_splits)
    with Resume assms ws show ?thesis
      by (cases "itemsQueue s"; cases w0; cases w1; cases "i = 0")
         (auto simp: sched_inv_def remaining_def resume_def loopHead_def
               dest!: below_two split: if_splits)
  next
    case Join
    with assms ws show ?thesis
      by (auto simp: sched_inv_def remaining_def terminal_app_fields split: if_splits)
  qed
qed

lemma exec_inv:
  "sched_inv items s \<Longrightarrow> exec evs s = Some s' \<Longrightarrow>
     sched_inv items s' \<and> length evs + remaining s' = remaining s"
proof (induction evs arbitrary: s)
  case Nil
  then show ?case by simp
next
  case (Cons e es)
  from Cons.prems(2) obtain s1 where s1: "step e s = Some s1" and rest: "exec es s1 = Some s'"
    by (auto split: option.splits)
  from step_inv[OF Cons.prems(1) s1] have "sched_inv items s1" "Suc (remaining s1) = remaining s"
    by auto
  with Cons.IH[OF _ rest] show ?case by auto
qed

lemma start_inv:
  assumes "handleGenerateClick a = Some s0"
  shows "sched_inv (generationItems a) s0 \<and> remaining s0 = 2 * length (generationItems a) + 1"
proof -
  from assms have ne: "generationItems a \<noteq> []" and
    s0: "s0 = startWorker (startWorker
             \<lparr>run_app = a\<lparr>isLoading := True, generatedImages := initialImages (generationItems a)\<rparr>,
              itemsQueue = generationItems a, workers = [], dequeued = [], settled = []\<rparr>)"
    by (auto simp: handleGenerateClick_def concurrencyLimit_def numeral_2_eq_2 split: if_splits)
  from ne obtain x xs where items: "generationItems a = x # xs" by (cases "generationItems a") auto
  show ?thesis
    unfolding s0 items
    by (cases xs) (simp_all add: startWorker_def loopHead_def sched_inv_def remaining_def)
qed

lemma inv_progress:
  assumes "sched_inv items s" and "0 < remaining s"
  shows "\<exists>e. step e s \<noteq> None"
proof -
  from assms(1) have "length (workers s) = 2" by (simp add: sched_inv_def)
  then obtain w0 w1 where ws: "workers s = [w0, w1]" using two_workers by blast
  consider item where "w0 = Awaiting item" | "w0 = Returned"
    | item where "w0 = Finished" "w1 = Awaiting item" | "w0 = Finished" "w1 = Returned"
    | "w0 = Finished" "w1 = Finished"
    by (cases w0; cases w1) auto
  then show ?thesis
  proof cases
    case 1
    with ws have "step (Settle 0 (Inr [])) s \<noteq> None" by simp
    then show ?thesis by blast
  next
    case 2
    with ws have "step (Resume 0) s \<noteq> None" by simp
    then show ?thesis by blast
  next
    case 3
    with ws have "step (Settle 1 (Inr [])) s \<noteq> None" by simp
    then show ?thesis by blast
  next
    case 4
    with ws have "step (Resume 1) s \<noteq> None" by simp
    then show ?thesis by blast
  next
    case 5
    with ws assms have "step Join s \<noteq> None"
      by (auto simp: sched_inv_def remaining_def split: if_splits)
    then show ?thesis by blast
  qed
qed

lemma inv_complete:
  assumes "sched_inv items s" and "remaining s = 0"
  shows "itemsQueue s = [] \<and> mset (settled s) = mset items \<and> list_all (terminal (run_app s)) items
       \<and> \<not> isLoading (run_app s) \<and> appState (run_app s) = results_shown"
proof -
  from assms(1) have "length (workers s) = 2" by (simp add: sched_inv_def)
  then obtain w0 w1 where ws: "workers s = [w0, w1]" using two_workers by blast
  from assms(2) ws have q: "itemsQueue s = []" and w: "w0 = Finished" "w1 = Finished"
    and l: "\<not> isLoading (run_app s)"
    by (cases w0; cases w1; simp add: remaining_def split: if_splits)+
  from assms(1) q ws w have m: "mset (settled s) = mset items"
    and t: "list_all (terminal (run_app s)) (settled s)"
    and st: "appState (run_app s) = results_shown"
    using l by (auto simp: sched_inv_def)
  from m have "set (settled s) = set items" by (rule mset_eq_setD)
  with t have "list_all (terminal (run_app s)) items" by (simp add: list_all_iff)
  with q m l st show ?thesis by simp
qed

lemma settle_then_resume:
  assumes "i < length (workers s)" and "workers s ! i = Awaiting item"
  shows "\<exists>s'. step (Settle i r) s = Some s' \<and> step (Resume i) s' \<noteq> None"
  using assms by simp

lemma inFlight_le: "length (inFlight ws) \<le> length ws"
  by (induction ws rule: inFlight.induct) auto

text \<open>
  C1. Take any run of the scheduler that \<open>handleGenerateClick\<close> starts, that is any
  sequence of events from its start state, whatever the order in which the calls settle
  and whatever their outcomes. In every state of it at most two generation calls are in
  flight, and they are exactly the items taken off the queue and not yet settled. The
  items taken off the queue, followed by the queue, are the input sequence: items leave the
  queue in input order, each once. Every settled item has the status done or error. The
  events made so far and the events still to make add up to twice the number of items
  plus one, so a run is never longer than that; before that number is reached some event
  can happen; a call in flight can settle with any outcome, value or error, and its
  worker can run on afterwards. When no event is left to make the queue is empty, the
  settled items are the input items, each once, every item has the status done or
  error, and the handler has finished.
\<close>

theorem scheduler_run:
  assumes start: "handleGenerateClick a = Some s0" and run: "exec evs s0 = Some s"
  shows "length (inFlight (workers s)) \<le> 2
       \<and> length (dequeued s) = length (settled s) + length (inFlight (workers s))
       \<and> dequeued s @ itemsQueue s = generationItems a
       \<and> mset (dequeued s) = mset (settled s) + mset (inFlight (workers s))
       \<and> list_all (terminal (run_app s)) (settled s)
       \<and> length evs + remaining s = 2 * length (generationItems a) + 1
       \<and> (0 < remaining s \<longrightarrow> (\<exists>e. step e s \<noteq> None))
       \<and> (\<forall>i item r. i < length (workers s) \<and> workers s ! i = Awaiting item \<longrightarrow>
             (\<exists>s'. step (Settle i r) s = Some s' \<and> step (Resume i) s' \<noteq> None))
       \<and> (remaining s = 0 \<longrightarrow>
             itemsQueue s = [] \<and> mset (settled s) = mset (generationItems a)
             \<and> list_all (terminal (run_app s)) (generationItems a)
             \<and> \<not> isLoading (run_app s) \<and> appState (run_app s) = results_shown)"
proof -
  from start_inv[OF start] have i0: "sched_inv (generationItems a) s0"
    and r0: "remaining s0 = 2 * length (generationItems a) + 1" by auto
  from exec_inv[OF i0 run] r0 have inv: "sched_inv (generationItems a) s"
    and len: "length evs + remaining s = 2 * length (generationItems a) + 1" by auto
  from inv have two: "length (workers s) = 2"
    and fifo: "dequeued s @ itemsQueue s = generationItems a"
    and once: "mset (dequeued s) = mset (settled s) + mset (inFlight (workers s))"
    and settledTerminal: "list_all (terminal (run_app s)) (settled s)"
    by (simp_all add: sched_inv_def)
  from two inFlight_le[of "workers s"] have bound: "length (inFlight (workers s)) \<le> 2" by simp
  from once have "size (mset (dequeued s)) = size (mset (settled s) + mset (inFlight (workers s)))"
    by simp
  then have count: "length (dequeued s) = length (settled s) + length (inFlight (workers s))"
    by simp
  have prog: "0 < remaining s \<longrightarrow> (\<exists>e. step e s \<noteq> None)"
    using inv_progress[OF inv] by blast
  have fail: "\<forall>i item r. i < length (workers s) \<and> workers s ! i = Awaiting item \<longrightarrow>
             (\<exists>s'. step (Settle i r) s = Some s' \<and> step (Resume i) s' \<noteq> None)"
    using settle_then_resume by blast
  have fin: "remaining s = 0 \<longrightarrow>
             itemsQueue s = [] \<and> mset (settled s) = mset (generationItems a)
             \<and> list_all (terminal (run_app s)) (generationItems a)
             \<and> \<not> isLoading (run_app s) \<and> appState (run_app s) = results_shown"
    using inv_complete[OF inv] by blast
  from bound count fifo once settledTerminal len prog fail fin show ?thesis by blast
qed

lemma handleGenerateClick_sampleApp: "\<exists>s0. handleGenerateClick sampleApp = Some s0"
  by (simp add: handleGenerateClick_def sampleApp_def sampleItems_def sampleUrl_def)

lemma exec_sampleEvents:
  assumes "handleGenerateClick sampleApp = Some s0"
  shows "\<exists>s. exec sampleEvents s0 = Some s"
proof -
  from assms have "s0 = startWorker (startWorker
             \<lparr>run_app = sampleApp\<lparr>isLoading := True,
                                  generatedImages := initialImages (generationItems sampleApp)\<rparr>,
              itemsQueue = generationItems sampleApp, workers = [], dequeued = [], settled = []\<rparr>)"
    by (auto simp: handleGenerateClick_def concurrencyLimit_def numeral_2_eq_2 split: if_splits)
  then show ?thesis
    by (simp add: sampleEvents_def sampleApp_def sampleItems_def startWorker_def loopHead_def
          resume_def publish_def)
qed

text \<open>
  A complete run over four items: nine events from the start state, the first call
  failing, end with every item at a terminal status.
\<close>

theorem scheduler_run_witness:
  "\<exists>s0 s. handleGenerateClick sampleApp = Some s0 \<and> exec sampleEvents s0 = Some s
        \<and> length (generationItems sampleApp) = 4 \<and> length sampleEvents = 9
        \<and> remaining s = 0 \<and> itemsQueue s = []
        \<and> mset (settled s) = mset sampleItems
        \<and> list_all (terminal (run_app s)) sampleItems"
proof -
  from handleGenerateClick_sampleApp obtain s0 where s0: "handleGenerateClick sampleApp = Some s0"
    by blast
  from exec_sampleEvents[OF s0] obtain s where s: "exec sampleEvents s0 = Some s" by blast
  have n: "length (generationItems sampleApp) = 4" "generationItems sampleApp = sampleItems"
    by (simp_all add: sampleApp_def sampleItems_def)
  have k: "length sampleEvents = 9" by (simp add: sampleEvents_def)
  from scheduler_run[OF s0 s] n k have "remaining s = 0" by simp
  with scheduler_run[OF s0 s] n
  have "itemsQueue s = [] \<and> mset (settled s) = mset sampleItems
        \<and> list_all (terminal (run_app s)) sampleItems" by simp
  with s0 s n k \<open>remaining s = 0\<close> show ?thesis by blast
qed

section \<open>Single regeneration\<close>

text \<open>
  C7. Regenerating a label whose status is pending changes nothing: the component state
  is the same, and so is the world, so no request is issued. Doing it again is the same
  no-op.
\<close>

theorem regenerate_pending_is_noop:
  assumes "generatedImages a label = Some g" and "status g = Pending"
  shows "handleRegenerateCharacter descriptions rnd remote label (a, w) = (a, w)
       \<and> handleRegenerateCharacter descriptions rnd remote label
            (handleRegenerateCharacter descriptions rnd remote label (a, w)) = (a, w)"
proof -
  from assms have "handleRegenerateCharacter descriptions rnd remote label (a, w) = (a, w)"
    by (simp add: handleRegenerateCharacter_def split: option.splits if_splits)
  then show ?thesis by simp
qed

theorem regenerate_pending_is_noop_witness:
  "generatedImages pendingApp ''Ghillie suit'' = Some pendingImage
   \<and> status pendingImage = Pending
   \<and> find (\<lambda>item. character item = ''Ghillie suit'') (generationItems pendingApp)
       = Some \<lparr>character = ''Ghillie suit'', map_name = ''Pecado, Miramar'', scenario = ''scouting''\<rparr>
   \<and> handleRegenerateCharacter Map.empty rndHalf rejectThenImage ''Ghillie suit''
        (pendingApp, emptyWorld) = (pendingApp, emptyWorld)"
proof -
  have g: "generatedImages pendingApp ''Ghillie suit'' = Some pendingImage"
    by (simp add: pendingApp_def)
  have p: "status pendingImage = Pending" by (simp add: pendingImage_def)
  have f: "find (\<lambda>item. character item = ''Ghillie suit'') (generationItems pendingApp)
       = Some \<lparr>character = ''Ghillie suit'', map_name = ''Pecado, Miramar'', scenario = ''scouting''\<rparr>"
    by (simp add: pendingApp_def sampleApp_def sampleItems_def)
  from regenerate_pending_is_noop[OF g p, of Map.empty rndHalf rejectThenImage emptyWorld] g p f
  show ?thesis by simp
qed

text \<open>
  For contrast: a label that is not pending is regenerated, with one request and the
  result published.
\<close>

lemma regenerate_not_pending_calls:
  "calls (snd (handleRegenerateCharacter Map.empty rndHalf imageRemote ''Ghillie suit''
                 (sampleApp, emptyWorld)))
     = [imageRequest ''image/png'' ''AAAA''
          (generatePrompt Map.empty
             \<lparr>character = ''Ghillie suit'', map_name = ''Pecado, Miramar'', scenario = ''scouting''\<rparr>
             (Some Unknown))]
   \<and> generatedImages (fst (handleRegenerateCharacter Map.empty rndHalf imageRemote ''Ghillie suit''
                              (sampleApp, emptyWorld))) ''Ghillie suit''
     = Some (doneImage ''data:image/png;base64,BBBB'')"
proof -
  have t: "tryGenerate rndHalf imageRemote req emptyWorld
             = (Inr ''data:image/png;base64,BBBB'', \<lparr>calls = [req], delays = []\<rparr>)" for req
    by (simp add: tryGenerate_def withRetry_unrolled imageRemote_def processGeminiResponse_def
          imageReply_def emptyWorld_def)
  have g: "generateCharacterImage rndHalf imageRemote sampleUrl prompt emptyWorld
             = (Inr ''data:image/png;base64,BBBB'',
                \<lparr>calls = [imageRequest ''image/png'' ''AAAA'' prompt], delays = []\<rparr>)" for prompt
    by (simp add: generateCharacterImage_def matchDataUrl_sampleUrl t)
  show ?thesis
    using g by (simp add: handleRegenerateCharacter_def sampleApp_def sampleItems_def publish_def
          Let_def) (simp add: sampleUrl_def)
qed

section \<open>The album page\<close>

lemma cell_sizes: "cellWidth = 1090" "cellHeight = 936"
  by (simp_all add: cellWidth_def cellHeight_def contentHeight_def canvasWidth_def canvasHeight_def
        grid_padding_def grid_cols_def grid_rows_def contentTopMargin_def)

lemma card_sizes: "cardWidth = 673.92" "cardHeight = 842.4"
  by (simp_all add: cardWidth_def cardHeight_def maxCardWidth_def maxCardHeight_def
        cardAspectRatio_def cell_sizes)

lemma card_centre:
  "(grid_padding * (real col + 1) + cellWidth * real col + (cellWidth - cardWidth) / 2 + cardWidth / 2,
    contentTopMargin + grid_padding * (real row + 1) + cellHeight * real row
      + (cellHeight - cardHeight) / 2 + cardHeight / 2)
   = cellCentre row col"
  by (simp add: cellCentre_def cell_sizes grid_padding_def contentTopMargin_def field_simps)

lemma placed_drawCard:
  "placed cur (drawCard n r (label, im) k @ rest)
     = (label, cellCentre ((n - 1 - k) div 2) ((n - 1 - k) mod 2)) # placed None rest"
  using card_centre[of "(n - 1 - k) mod 2" "(n - 1 - k) div 2"]
  by (simp add: drawCard_def Let_def grid_cols_def)

lemma placed_header: "placed None (headerOps @ rest) = placed None rest"
  by (simp add: headerOps_def)

lemma captions_drawCard:
  "captions (drawCard n r (label, im) k @ rest) = label # captions rest"
  by (simp add: drawCard_def Let_def)

lemma placed_cards:
  "placed None (concat (map (\<lambda>(entry, k). drawCard n (rnd k) entry k) xs) @ rest)
     = map (\<lambda>(entry, k). (fst entry, cellCentre ((n - 1 - k) div 2) ((n - 1 - k) mod 2))) xs
       @ placed None rest"
proof (induction xs)
  case Nil
  show ?case by simp
next
  case (Cons x xs)
  obtain label im k where x: "x = ((label, im), k)" by (metis surj_pair)
  show ?case using Cons.IH by (simp add: x placed_drawCard)
qed

lemma captions_cards:
  "captions (concat (map (\<lambda>(entry, k). drawCard n (rnd k) entry k) xs) @ rest)
     = map (\<lambda>(entry, k). fst entry) xs @ captions rest"
proof (induction xs)
  case Nil
  show ?case by simp
next
  case (Cons x xs)
  obtain label im k where x: "x = ((label, im), k)" by (metis surj_pair)
  show ?case using Cons.IH by (simp add: x captions_drawCard)
qed

lemma captions_header:
  "captions (headerOps @ rest) = ''PUBG LOBBY'' # ''Generated on Google AI Studio'' # captions rest"
  by (simp add: headerOps_def)

lemma those_map_Some:
  "list_all (\<lambda>x. f x \<noteq> None) xs \<Longrightarrow> those (map f xs) = Some (map (\<lambda>x. the (f x)) xs)"
  by (induction xs) auto

lemma loadImages_succeeds:
  assumes "list_all (\<lambda>u. decoder u \<noteq> None) us"
  shows "\<exists>ims. loadImages decoder loadTime us = Inr ims \<and> length ims = length us
               \<and> map src ims = us"
proof -
  have some: "loadImage decoder u \<noteq> None \<and> src (the (loadImage decoder u)) = u"
    if "decoder u \<noteq> None" for u
    using that by (auto simp: loadImage_def)
  from assms have all: "\<forall>u \<in> set us. decoder u \<noteq> None"
    by (simp add: list_all_iff)
  with some have "\<forall>u \<in> set us. loadImage decoder u \<noteq> None" by blast
  then have "list_all (\<lambda>u. loadImage decoder u \<noteq> None) us"
    by (simp add: list_all_iff)
  then have "loadImages decoder loadTime us = Inr (map (\<lambda>u. the (loadImage decoder u)) us)"
    by (simp add: loadImages_def those_map_Some)
  moreover from all some have "\<forall>u \<in> set us. src (the (loadImage decoder u)) = u" by blast
  then have "map src (map (\<lambda>u. the (loadImage decoder u)) us) = us"
    by (simp add: map_idI)
  ultimately show ?thesis by simp
qed

lemma reversed_cards:
  assumes "length E = n"
  shows "map (\<lambda>(entry, k). (fst entry, c (n - 1 - k))) (zip (rev E) [0..<n])
           = rev (map (\<lambda>(i, entry). (fst entry, c i)) (enumerate 0 E))"
proof (rule nth_equalityI)
  show "length (map (\<lambda>(entry, k). (fst entry, c (n - 1 - k))) (zip (rev E) [0..<n]))
          = length (rev (map (\<lambda>(i, entry). (fst entry, c i)) (enumerate 0 E)))"
    using assms by simp
next
  fix k assume "k < length (map (\<lambda>(entry, k). (fst entry, c (n - 1 - k))) (zip (rev E) [0..<n]))"
  with assms have k: "k < n" by simp
  then have j: "n - Suc k < n" by arith
  from k assms have "map (\<lambda>(entry, k). (fst entry, c (n - 1 - k))) (zip (rev E) [0..<n]) ! k
          = (fst (E ! (n - Suc k)), c (n - 1 - k))"
    by (simp add: rev_nth)
  moreover from k j assms
  have "rev (map (\<lambda>(i, entry). (fst entry, c i)) (enumerate 0 E)) ! k
          = (fst (E ! (n - Suc k)), c (n - Suc k))"
    by (simp add: rev_nth nth_enumerate_eq)
  ultimately show "map (\<lambda>(entry, k). (fst entry, c (n - 1 - k))) (zip (rev E) [0..<n]) ! k
          = rev (map (\<lambda>(i, entry). (fst entry, c i)) (enumerate 0 E)) ! k"
    by simp
qed

lemma createAlbumPage_placed:
  assumes "hasContext" and "list_all (\<lambda>u. decoder u \<noteq> None) (map snd imageData)"
  shows "\<exists>page. createAlbumPage hasContext decoder loadTime rnd imageData = Inr page
           \<and> canvas_width page = 2480 \<and> canvas_height page = 3508
           \<and> mime page = ''image/jpeg''
           \<and> placed None (ops page)
               = rev (map (\<lambda>(i, label). (label, cellCentre (i div 2) (i mod 2)))
                          (enumerate 0 (map fst imageData)))
           \<and> captions (ops page)
               = [''PUBG LOBBY'', ''Generated on Google AI Studio''] @ rev (map fst imageData)"
proof -
  from loadImages_succeeds[OF assms(2), of loadTime] obtain ims where
    ims: "loadImages decoder loadTime (map snd imageData) = Inr ims"
    and len: "length ims = length imageData" by auto
  define E where "E = zip (map fst imageData) ims"
  define n where "n = length E"
  define cards where
    "cards = concat (map (\<lambda>(entry, k). drawCard n (rnd k) entry k) (zip (rev E) [0..<n]))"
  define page where "page = \<lparr>canvas_width = canvasWidth, canvas_height = canvasHeight,
                      ops = headerOps @ cards, mime = ''image/jpeg'', quality = 0.9\<rparr>"
  have res: "createAlbumPage hasContext decoder loadTime rnd imageData = Inr page"
    using assms(1) ims
    by (simp add: createAlbumPage_def Let_def page_def cards_def n_def E_def)
  have nE: "length E = n" by (simp add: n_def)
  have fstE: "map fst E = map fst imageData" using len by (simp add: E_def)
  have "placed None (cards @ []) =
          map (\<lambda>(entry, k). (fst entry, cellCentre ((n - 1 - k) div 2) ((n - 1 - k) mod 2)))
              (zip (rev E) [0..<n]) @ placed None []"
    unfolding cards_def by (rule placed_cards)
  also have "map (\<lambda>(entry, k). (fst entry, cellCentre ((n - 1 - k) div 2) ((n - 1 - k) mod 2)))
              (zip (rev E) [0..<n])
        = rev (map (\<lambda>(i, entry). (fst entry, cellCentre (i div 2) (i mod 2))) (enumerate 0 E))"
    using reversed_cards[OF nE, of "\<lambda>i. cellCentre (i div 2) (i mod 2)"] by simp
  also have "map (\<lambda>(i, entry). (fst entry, cellCentre (i div 2) (i mod 2))) (enumerate 0 E)
        = map (\<lambda>(i, label). (label, cellCentre (i div 2) (i mod 2))) (enumerate 0 (map fst E))"
    by (simp add: enumerate_eq_zip zip_map2 case_prod_unfold)
  finally have pl: "placed None (ops page)
               = rev (map (\<lambda>(i, label). (label, cellCentre (i div 2) (i mod 2)))
                          (enumerate 0 (map fst imageData)))"
    by (simp add: page_def placed_header fstE)
  have "captions (cards @ []) = map (\<lambda>(entry, k). fst entry) (zip (rev E) [0..<n]) @ captions []"
    unfolding cards_def by (rule captions_cards)
  also have "map (\<lambda>(entry, k). fst entry) (zip (rev E) [0..<n]) = map fst (rev E)"
    using nE by (simp add: case_prod_unfold map_fst_zip flip: map_map [unfolded comp_def])
  finally have "captions cards = rev (map fst E)"
    by (simp add: rev_map)
  then have "captions cards = rev (map fst imageData)"
    by (simp only: fstE)
  then have cp: "captions (ops page)
               = [''PUBG LOBBY'', ''Generated on Google AI Studio''] @ rev (map fst imageData)"
    using captions_cards[of n rnd "[]" "[]"]
    by (simp add: page_def headerOps_def captions_header)
  from res pl cp show ?thesis
    by (intro exI[of _ page]) (simp add: page_def canvasWidth_def canvasHeight_def)
qed

lemma cellCentre_inj: "cellCentre r c = cellCentre r' c' \<longleftrightarrow> r = r' \<and> c = c'"
  by (auto simp: cellCentre_def)

lemma grid_index_inj: "(i div 2, i mod 2) = (j div 2, j mod 2) \<longleftrightarrow> i = (j::nat)"
  by (metis div_mult_mod_eq prod.inject)

lemma decodable_sample: "list_all (\<lambda>u. sampleDecoder u \<noteq> None) (map snd sampleImageData)"
  by (simp add: sampleImageData_def sampleDecoder_def)

text \<open>
  C9. When the canvas gives a 2D context and every image loads, the cards are drawn from the last input entry to the
  first, and the card of the \<open>i\<close>-th entry is drawn around the centre of the grid cell
  in row \<open>i div 2\<close> and column \<open>i mod 2\<close>: the captions with their origins, in drawing
  order, are the reversed list of the entries with the cells of their forward indices.
\<close>

theorem album_draw_order:
  assumes "hasContext" and "list_all (\<lambda>u. decoder u \<noteq> None) (map snd imageData)"
  shows "\<exists>page. createAlbumPage hasContext decoder loadTime rnd imageData = Inr page
           \<and> placed None (ops page)
               = rev (map (\<lambda>(i, label). (label, cellCentre (i div 2) (i mod 2)))
                          (enumerate 0 (map fst imageData)))"
  using createAlbumPage_placed[OF assms, of loadTime rnd] by blast

theorem album_draw_order_witness:
  "list_all (\<lambda>u. sampleDecoder u \<noteq> None) (map snd sampleImageData)
   \<and> (\<exists>page. createAlbumPage True sampleDecoder sampleLoadTime rndHalf sampleImageData = Inr page
         \<and> placed None (ops page)
             = [(''Hoodie'', 1835, 1904), (''Biker jacket'', 645, 1904),
                (''Ghillie suit'', 1835, 868), (''Trench coat'', 645, 868)])"
proof -
  have "rev (map (\<lambda>(i, label). (label, cellCentre (i div 2) (i mod 2)))
                          (enumerate 0 (map fst sampleImageData)))
        = [(''Hoodie'', 1835, 1904), (''Biker jacket'', 645, 1904),
                (''Ghillie suit'', 1835, 868), (''Trench coat'', 645, 868)]"
    by (simp add: sampleImageData_def cellCentre_def)
  with album_draw_order[OF TrueI decodable_sample, of sampleLoadTime rndHalf] decodable_sample
  show ?thesis by simp
qed

text \<open>
  C8. When the canvas gives a 2D context, four labelled images that load, whatever
  their sizes, compose to a page of 2480 by 3508 pixels. Every label is among the texts drawn; there are four cards, and the card of
  the \<open>i\<close>-th entry carries its label and is drawn around the centre of the grid cell in
  row \<open>i div 2\<close>, column \<open>i mod 2\<close>, a cell of the 2 by 3 grid; different entries get
  different cells, with different centres.
\<close>

theorem album_four_cards:
  assumes "hasContext" and "length imageData = 4"
    and "list_all (\<lambda>u. decoder u \<noteq> None) (map snd imageData)"
  shows "\<exists>page. createAlbumPage hasContext decoder loadTime rnd imageData = Inr page
           \<and> canvas_width page = 2480 \<and> canvas_height page = 3508
           \<and> length (placed None (ops page)) = 4
           \<and> (\<forall>i<4. fst (imageData ! i) \<in> set (captions (ops page))
                   \<and> (fst (imageData ! i), cellCentre (i div 2) (i mod 2))
                       \<in> set (placed None (ops page))
                   \<and> i div 2 < 3 \<and> i mod 2 < 2)
           \<and> (\<forall>i<4. \<forall>j<4. i \<noteq> j \<longrightarrow>
                   (i div 2, i mod 2) \<noteq> (j div 2, j mod 2)
                   \<and> cellCentre (i div 2) (i mod 2) \<noteq> cellCentre (j div 2) (j mod 2))"
proof -
  from createAlbumPage_placed[OF assms(1,3), of loadTime rnd] obtain page where
    res: "createAlbumPage hasContext decoder loadTime rnd imageData = Inr page"
    and dims: "canvas_width page = 2480" "canvas_height page = 3508"
    and pl: "placed None (ops page)
               = rev (map (\<lambda>(i, label). (label, cellCentre (i div 2) (i mod 2)))
                          (enumerate 0 (map fst imageData)))"
    and cp: "captions (ops page)
               = [''PUBG LOBBY'', ''Generated on Google AI Studio''] @ rev (map fst imageData)"
    by blast
  have len: "length (placed None (ops page)) = 4" using assms(2) by (simp add: pl)
  have each: "fst (imageData ! i) \<in> set (captions (ops page))
                   \<and> (fst (imageData ! i), cellCentre (i div 2) (i mod 2))
                       \<in> set (placed None (ops page))
                   \<and> i div 2 < 3 \<and> i mod 2 < 2" if i: "i < 4" for i
  proof -
    from i assms(2) have "fst (imageData ! i) \<in> set (map fst imageData)" by simp
    then have a: "fst (imageData ! i) \<in> set (captions (ops page))" by (simp add: cp)
    from i assms(2) have "(i, fst (imageData ! i)) \<in> set (enumerate 0 (map fst imageData))"
      by (simp add: in_set_enumerate_eq)
    then have b: "(fst (imageData ! i), cellCentre (i div 2) (i mod 2))
                       \<in> set (placed None (ops page))"
      unfolding pl set_rev set_map
      by (intro image_eqI[where x="(i, fst (imageData ! i))"]) simp_all
    from i have "i div 2 < 3" "i mod 2 < 2" by arith+
    with a b show ?thesis by simp
  qed
  have distinct: "(i div 2, i mod 2) \<noteq> (j div 2, j mod 2)
                   \<and> cellCentre (i div 2) (i mod 2) \<noteq> cellCentre (j div 2) (j mod 2)"
    if "i \<noteq> j" for i j :: nat
    using that grid_index_inj[of i j] by (simp add: cellCentre_inj)
  from res dims len each distinct show ?thesis by blast
qed

theorem album_four_cards_witness:
  "length sampleImageData = 4
   \<and> list_all (\<lambda>u. sampleDecoder u \<noteq> None) (map snd sampleImageData)
   \<and> (\<exists>page. createAlbumPage True sampleDecoder sampleLoadTime rndHalf sampleImageData = Inr page
         \<and> canvas_width page = 2480 \<and> canvas_height page = 3508
         \<and> length (placed None (ops page)) = 4
         \<and> ''Ghillie suit'' \<in> set (captions (ops page))
         \<and> (''Ghillie suit'', cellCentre 0 1) \<in> set (placed None (ops page))
         \<and> cellCentre 0 1 \<noteq> cellCentre 1 0)"
proof -
  have n: "length sampleImageData = 4" by (simp add: sampleImageData_def)
  from album_four_cards[OF TrueI n decodable_sample, of sampleLoadTime rndHalf] obtain page where
    p: "createAlbumPage True sampleDecoder sampleLoadTime rndHalf sampleImageData = Inr page"
      "canvas_width page = 2480" "canvas_height page = 3508"
      "length (placed None (ops page)) = 4"
    and e: "\<forall>i<4. fst (sampleImageData ! i) \<in> set (captions (ops page))
                   \<and> (fst (sampleImageData ! i), cellCentre (i div 2) (i mod 2))
                       \<in> set (placed None (ops page))
                   \<and> i div 2 < 3 \<and> i mod 2 < 2"
    and d: "\<forall>i<4. \<forall>j<4. i \<noteq> j \<longrightarrow>
                   (i div 2, i mod 2) \<noteq> (j div 2, j mod 2)
                   \<and> cellCentre (i div 2) (i mod 2) \<noteq> cellCentre (j div 2) (j mod 2)"
    by blast
  have "(1::nat) < 4" by simp
  from e[rule_format, OF this]
  have "fst (sampleImageData ! 1) \<in> set (captions (ops page))
             \<and> (fst (sampleImageData ! 1), cellCentre (1 div 2) (1 mod 2))
                       \<in> set (placed None (ops page))"
    by blast
  then have e1: "''Ghillie suit'' \<in> set (captions (ops page))"
    "(''Ghillie suit'', cellCentre 0 1) \<in> set (placed None (ops page))"
    by (simp_all add: sampleImageData_def)
  have "(1::nat) < 4" "(2::nat) < 4" "(1::nat) \<noteq> 2" by simp_all
  from d[rule_format, OF this]
  have "cellCentre (1 div 2) (1 mod 2) \<noteq> cellCentre (2 div 2) (2 mod 2)"
    by blast
  then have d1: "cellCentre 0 1 \<noteq> cellCentre 1 0" by simp
  from n decodable_sample p e1 d1 show ?thesis by blast
qed

section \<open>Further facts about the model\<close>

text \<open>Which failures are retriable, and what is rethrown for a value that is no \<open>Error\<close>.\<close>

lemma isRetriable_internalFailure: "isRetriable internalFailure"
  unfolding isRetriable_def statusOf_def messageOf_def internalFailure_def
  by code_simp

lemma not_isRetriable_throttled: "\<not> isRetriable throttled"
  unfolding isRetriable_def statusOf_def messageOf_def throttled_def
  by code_simp

lemma rethrow_internalFailure:
  "rethrow internalFailure = new_Error ''Gemini API call failed: An INTERNAL error occurred''"
  by (simp add: rethrow_def messageOf_def internalFailure_def)

text \<open>Before the workers start, every item of the batch is published as pending.\<close>

lemma fold_pending_keeps:
  "m k = Some pendingImage \<Longrightarrow>
     fold (\<lambda>item m. m(character item \<mapsto> pendingImage)) items m k = Some pendingImage"
  by (induction items arbitrary: m) auto

lemma initialImages_pending:
  "item \<in> set items \<Longrightarrow> initialImages items (character item) = Some pendingImage"
  unfolding initialImages_def
proof (induction items arbitrary: item rule: rev_induct)
  case Nil
  then show ?case by simp
next
  case (snoc x xs)
  then show ?case by (cases "character item = character x") auto
qed

lemma run_app_startWorker: "run_app (startWorker s) = run_app s"
  by (simp add: startWorker_def loopHead_def split: list.splits)

lemma handleGenerateClick_publishes_pending:
  assumes "handleGenerateClick a = Some s0" and "item \<in> set (generationItems a)"
  shows "generatedImages (run_app s0) (character item) = Some pendingImage"
    and "isLoading (run_app s0)"
  using assms
  by (auto simp: handleGenerateClick_def concurrencyLimit_def numeral_2_eq_2 run_app_startWorker
        initialImages_pending split: if_splits)

text \<open>An empty string for the uploaded image is the early return of both handlers.\<close>

lemma handlers_return_on_empty_image:
  assumes "uploadedImage a = Some []"
  shows "handleGenerateClick a = None"
    and "handleRegenerateCharacter descriptions rnd remote label (a, w) = (a, w)"
  using assms by (simp_all add: handleGenerateClick_def handleRegenerateCharacter_def)

text \<open>The images drawn are the loaded images of the entries, last entry first.\<close>

lemma drawnImages_drawCard:
  "drawnImages (drawCard n r (label, im) k @ rest) = im # drawnImages rest"
  by (simp add: drawCard_def Let_def)

lemma drawnImages_cards:
  "drawnImages (concat (map (\<lambda>(entry, k). drawCard n (rnd k) entry k) xs) @ rest)
     = map (\<lambda>(entry, k). snd entry) xs @ drawnImages rest"
proof (induction xs)
  case Nil
  show ?case by simp
next
  case (Cons x xs)
  obtain label im k where x: "x = ((label, im), k)" by (metis surj_pair)
  show ?case using Cons.IH by (simp add: x drawnImages_drawCard)
qed

lemma drawnImages_header: "drawnImages (headerOps @ rest) = drawnImages rest"
  by (simp add: headerOps_def)

lemma createAlbumPage_draws_loaded:
  assumes "hasContext" and "list_all (\<lambda>u. decoder u \<noteq> None) (map snd imageData)"
  shows "\<exists>page. createAlbumPage hasContext decoder loadTime rnd imageData = Inr page
           \<and> map src (drawnImages (ops page)) = rev (map snd imageData)
           \<and> list_all (\<lambda>im. decoder (src im) = Some (naturalWidth im, naturalHeight im))
                (drawnImages (ops page))"
proof -
  have all: "\<forall>u \<in> set (map snd imageData). decoder u \<noteq> None"
    using assms(2) by (simp add: list_all_iff)
  then have "list_all (\<lambda>u. loadImage decoder u \<noteq> None) (map snd imageData)"
    by (auto simp: list_all_iff loadImage_def)
  then have "those (map (loadImage decoder) (map snd imageData))
               = Some (map (\<lambda>u. the (loadImage decoder u)) (map snd imageData))"
    by (rule those_map_Some)
  then have ims: "loadImages decoder loadTime (map snd imageData)
                    = Inr (map (\<lambda>u. the (loadImage decoder u)) (map snd imageData))"
    unfolding loadImages_def by (simp only: option.case)
  define ims where "ims = map (\<lambda>u. the (loadImage decoder u)) (map snd imageData)"
  define E where "E = zip (map fst imageData) ims"
  define n where "n = length E"
  define cards where
    "cards = concat (map (\<lambda>(entry, k). drawCard n (rnd k) entry k) (zip (rev E) [0..<n]))"
  define page where "page = \<lparr>canvas_width = canvasWidth, canvas_height = canvasHeight,
                      ops = headerOps @ cards, mime = ''image/jpeg'', quality = 0.9\<rparr>"
  have res: "createAlbumPage hasContext decoder loadTime rnd imageData = Inr page"
    using assms(1) ims
    by (simp add: createAlbumPage_def Let_def page_def cards_def n_def E_def ims_def)
  have nE: "length E = n" by (simp add: n_def)
  have sndE: "map snd E = ims" by (simp add: E_def ims_def)
  have "drawnImages (cards @ []) = map (\<lambda>(entry, k). snd entry) (zip (rev E) [0..<n]) @ drawnImages []"
    unfolding cards_def by (rule drawnImages_cards)
  also have "map (\<lambda>(entry, k). snd entry) (zip (rev E) [0..<n]) = map snd (rev E)"
    using nE by (simp add: case_prod_unfold map_fst_zip flip: map_map [unfolded comp_def])
  finally have "drawnImages cards = rev (map snd E)"
    by (simp add: rev_map)
  then have dr: "drawnImages (ops page) = rev ims"
    by (simp only: sndE) (simp add: page_def drawnImages_header)
  have each: "src (the (loadImage decoder u)) = u
               \<and> decoder u = Some (naturalWidth (the (loadImage decoder u)),
                                    naturalHeight (the (loadImage decoder u)))"
    if "decoder u \<noteq> None" for u
    using that by (auto simp: loadImage_def)
  from all each have "map src ims = map snd imageData"
    unfolding ims_def by (simp add: map_idI)
  moreover from all each
  have "list_all (\<lambda>im. decoder (src im) = Some (naturalWidth im, naturalHeight im)) ims"
    unfolding ims_def by (simp add: list_all_iff)
  ultimately show ?thesis
    using res dr by (intro exI[of _ page]) (simp add: rev_map [symmetric])
qed

text \<open>The three sizes with a side of 0, and one tall image cut to the container's height.\<close>

lemma fitImage_edge_cases:
  "fitImage \<lparr>src = u, naturalWidth = 0, naturalHeight = 0\<rparr> = (imageContainerWidth, None)"
  "fitImage \<lparr>src = u, naturalWidth = 640, naturalHeight = 0\<rparr> = (imageContainerWidth, Some 0)"
  "fitImage \<lparr>src = u, naturalWidth = 0, naturalHeight = 480\<rparr> = (0, Some imageContainerHeight)"
  by (simp_all add: fitImage_def)

lemma fitImage_tall:
  "fitImage \<lparr>src = u, naturalWidth = 768, naturalHeight = 1536\<rparr>
     = (imageContainerHeight / 2, Some imageContainerHeight)"
  by (simp add: fitImage_def Let_def imageContainerHeight_def imageContainerWidth_def card_sizes)

text \<open>
  The failures: without a context nothing is loaded; with sources that do not decode the
  error is that of the load which fails first in time, here the last entry.
\<close>

lemma createAlbumPage_failures:
  "createAlbumPage False decoder loadTime rnd imageData
     = Inl (new_Error ''Could not get 2D canvas context'')"
  "createAlbumPage True sampleDecoder sampleLoadTime rndHalf brokenImageData
     = Inl (new_Error ''Failed to load image: data:image/png;base64,BROKEN2...'')"
  by (simp_all add: createAlbumPage_def loadImages_def loadImage_def brokenImageData_def
        sampleDecoder_def sampleLoadTime_def loadError_def upt_rec)

end
